theory Spec2Isabelle
  imports Complex_Main
begin

section \<open>Domain model\<close>

text \<open>
  The entity of \<^verbatim>\<open>blog.entity.ts\<close>, the persisted document of \<^verbatim>\<open>blog.model.ts\<close> and the
  payloads of \<^verbatim>\<open>blog.dto.ts\<close>. A \<^verbatim>\<open>Date\<close> is a valid instant, in milliseconds since the
  epoch. A character is a code unit below 256, so a string is a string of Latin-1
  characters, and its length is the number of its code units. The numbers of a query
  (\<^verbatim>\<open>page\<close>, \<^verbatim>\<open>limit\<close>) are whole numbers, of either sign.
\<close>

type_synonym Date = int

datatype IBlogPostStatus = DRAFT | PUBLISHED | ARCHIVED | SCHEDULED

datatype IBlogPostVisibility = PUBLIC | PRIVATE | UNLISTED

record IFeaturedImage =
  url :: string
  alt :: "string option"
  caption :: "string option"

text \<open>\<^verbatim>\<open>keywords\<close> of the SEO block is an array; an absent array is stored as the empty one.\<close>

record IBlogSEO =
  metaTitle :: "string option"
  metaDescription :: "string option"
  seo_keywords :: "string list"
  ogImage :: "string option"

text \<open>
  \<^verbatim>\<open>IBlogLike\<close> and \<^verbatim>\<open>IBlogLikeMongo\<close> differ in the type of \<^verbatim>\<open>user\<close> only, and
  \<^verbatim>\<open>IBlog\<close> is \<^verbatim>\<open>IBlogPostEntity\<close> with \<^verbatim>\<open>_id\<close>, \<^verbatim>\<open>author\<close>, \<^verbatim>\<open>category\<close> and the users
  of \<^verbatim>\<open>likes\<close> as \<^verbatim>\<open>ObjectId\<close> instead of \<^verbatim>\<open>string\<close>. Both are one record, with the type
  of identifiers as its parameter. The identifier field (\<^verbatim>\<open>_id\<close> of the document,
  \<^verbatim>\<open>id\<close> of the entity) is \<open>post_id\<close>.
\<close>

record 'i blog_like =
  user :: 'i
  likedAt :: Date

record 'i blog_post =
  post_id :: 'i
  title :: string
  slug :: string
  content :: string
  excerpt :: "string option"
  author :: 'i
  category :: 'i
  tags :: "string list"
  featuredImage :: "IFeaturedImage option"
  status :: IBlogPostStatus
  visibility :: IBlogPostVisibility
  viewCount :: nat
  likes :: "'i blog_like list"
  readTime :: nat
  seo :: "IBlogSEO option"
  publishedAt :: "Date option"
  scheduledFor :: "Date option"
  createdAt :: Date
  updatedAt :: Date

text \<open>An \<^verbatim>\<open>ObjectId\<close> is written as 24 hexadecimal digits, in lower case.\<close>

datatype ObjectId = OID string

type_synonym IBlogLike = "string blog_like"
type_synonym IBlogLikeMongo = "ObjectId blog_like"
type_synonym IBlogPostEntity = "string blog_post"
type_synonym IBlog = "ObjectId blog_post"

text \<open>
  In a payload an absent key is \<open>None\<close>. A key that may also hold \<^verbatim>\<open>null\<close> has an option
  of an option: \<open>Some None\<close> is the key present with \<^verbatim>\<open>null\<close>.
\<close>

record ICreateBlogDto =
  new_title :: string
  new_slug :: "string option"
  new_content :: string
  new_excerpt :: "string option"
  new_author :: "string option"
  new_category :: string
  new_tags :: "string list option"
  new_featuredImage :: "IFeaturedImage option"
  new_status :: "IBlogPostStatus option"
  new_visibility :: "IBlogPostVisibility option"
  new_seo :: "IBlogSEO option"
  new_scheduledFor :: "Date option"

record IUpdateBlogDto =
  upd_title :: "string option"
  upd_slug :: "string option"
  upd_content :: "string option"
  upd_excerpt :: "string option"
  upd_category :: "string option"
  upd_tags :: "string list option"
  upd_featuredImage :: "IFeaturedImage option option"
  upd_status :: "IBlogPostStatus option"
  upd_visibility :: "IBlogPostVisibility option"
  upd_seo :: "IBlogSEO option option"
  upd_publishedAt :: "Date option option"
  upd_scheduledFor :: "Date option option"

text \<open>The query of a list retrieval, every key optional, and its result.\<close>

datatype SortOrder = asc | desc

record IQueryParams =
  q_page :: "int option"
  q_limit :: "int option"
  q_search :: "string option"
  q_sortBy :: "string option"
  q_sortOrder :: "SortOrder option"

text \<open>
  \<^verbatim>\<open>Math.ceil(total / limit)\<close> is not a finite number when \<^verbatim>\<open>limit\<close> is 0, so the
  \<^verbatim>\<open>totalPages\<close> of a page takes its value in the numbers extended by the infinities and
  \<^verbatim>\<open>NaN\<close>.
\<close>

datatype number = Finite int | PosInfinity | NegInfinity | NaN

record Pagination =
  pg_page :: int
  pg_limit :: int
  pg_total :: int
  pg_totalPages :: number

record 'a PaginatedData =
  data :: "'a list"
  pagination :: Pagination

text \<open>The errors of the service: message, HTTP status and code of an \<^verbatim>\<open>ApiError\<close>.\<close>

datatype ErrorCode =
  BAD_REQUEST | UNAUTHORIZED | FORBIDDEN | NOT_FOUND | CONFLICT
  | INTERNAL_SERVER_ERROR | OPERATION_FAILED

datatype ApiError = ApiError string nat ErrorCode

fun code :: "ApiError \<Rightarrow> ErrorCode" where
  "code (ApiError m s c) = c"

section \<open>Strings and identifiers\<close>

text \<open>
  \<^verbatim>\<open>String.prototype.trim\<close> strips white space and line terminators at both ends; below
  256 these are U+0009 to U+000D, U+0020 and U+00A0.
\<close>

definition isSpace :: "char \<Rightarrow> bool" where
  "isSpace c = (c \<in> set [CHR '' '', CHR 0x09, CHR 0x0A, CHR 0x0B, CHR 0x0C, CHR 0x0D, CHR 0xA0])"

definition trim :: "string \<Rightarrow> string" where
  "trim s = rev (dropWhile isSpace (rev (dropWhile isSpace s)))"

text \<open>
  \<^verbatim>\<open>String.prototype.toLowerCase\<close>: below 256 the capitals are U+0041 to U+005A and
  U+00C0 to U+00DE without U+00D7, each 32 below its small letter.
\<close>

definition toLowerCase_char :: "char \<Rightarrow> char" where
  "toLowerCase_char c =
     (let n = (of_char c :: nat)
      in if (65 \<le> n \<and> n \<le> 90) \<or> (192 \<le> n \<and> n \<le> 222 \<and> n \<noteq> 215)
         then char_of (n + 32) else c)"

definition toLowerCase :: "string \<Rightarrow> string" where
  "toLowerCase s = map toLowerCase_char s"

definition isHex :: "char \<Rightarrow> bool" where
  "isHex c = (c \<in> set ''0123456789abcdefABCDEF'')"

text \<open>
  \<^verbatim>\<open>Types.ObjectId.isValid\<close> on a string, and \<^verbatim>\<open>new Types.ObjectId(s)\<close>, which throws
  on a string that is not valid (\<open>None\<close>). The store casts the identifier of a filter the
  same way.
\<close>

definition ObjectId_isValid :: "string \<Rightarrow> bool" where
  "ObjectId_isValid s = (length s = 24 \<and> list_all isHex s)"

definition new_ObjectId :: "string \<Rightarrow> ObjectId option" where
  "new_ObjectId s = (if ObjectId_isValid s then Some (OID (toLowerCase s)) else None)"

fun toString :: "ObjectId \<Rightarrow> string" where
  "toString (OID h) = h"

section \<open>The document store\<close>

text \<open>
  The store is the environment of the repository. Its state is the collection of
  documents in insertion order; \<open>clock\<close> is what \<^verbatim>\<open>new Date()\<close> reads; \<open>faults\<close> says, for
  each coming round trip to the store, whether it throws (a store-level failure);
  \<open>logged\<close> holds the lines written by \<^verbatim>\<open>logger.error\<close>; \<open>id_supply\<close> is the stream of
  identifiers given to new documents. An operation reads the clock and uses up faults and
  identifiers; between two operations the environment may set the clock and the faults
  anew.
\<close>

record world =
  docs :: "IBlog list"
  clock :: Date
  faults :: "bool list"
  logged :: "string list"
  id_supply :: "nat \<Rightarrow> ObjectId"

text \<open>What a call into the store may throw inside a \<^verbatim>\<open>try\<close> block of the repository.\<close>

datatype thrown = StoreError | CastError | ValidationError | DuplicateKeyError

definition round_trip :: "world \<Rightarrow> bool \<times> world" where
  "round_trip w = (case faults w of [] \<Rightarrow> (False, w) | f # fs \<Rightarrow> (f, w\<lparr>faults := fs\<rparr>))"

definition fault_at :: "world \<Rightarrow> nat \<Rightarrow> bool" where
  "fault_at w n = (case drop n (faults w) of [] \<Rightarrow> False | f # fs \<Rightarrow> f)"

definition new_Date :: "world \<Rightarrow> Date" where
  "new_Date w = clock w"

definition logger_error :: "string \<Rightarrow> world \<Rightarrow> world" where
  "logger_error m w = w\<lparr>logged := logged w @ [m]\<rparr>"

text \<open>The external capabilities: the slug transliteration, the text index and the sort order
  of the store, \<open>sorts_before c k a b\<close> for \<open>a\<close> not after \<open>b\<close> under the sort key \<open>k\<close>.\<close>

record collaborators =
  slugify :: "string \<Rightarrow> string"
  text_search :: "string \<Rightarrow> IBlog \<Rightarrow> bool"
  sorts_before :: "string \<Rightarrow> IBlog \<Rightarrow> IBlog \<Rightarrow> bool"

definition find_doc :: "IBlog list \<Rightarrow> ObjectId \<Rightarrow> IBlog option" where
  "find_doc ds oid = find (\<lambda>d. post_id d = oid) ds"

fun update_first :: "('a \<Rightarrow> bool) \<Rightarrow> ('a \<Rightarrow> 'a) \<Rightarrow> 'a list \<Rightarrow> 'a list" where
  "update_first P f [] = []"
| "update_first P f (x # xs) = (if P x then f x # xs else x # update_first P f xs)"

fun remove_first :: "('a \<Rightarrow> bool) \<Rightarrow> 'a list \<Rightarrow> 'a list" where
  "remove_first P [] = []"
| "remove_first P (x # xs) = (if P x then xs else x # remove_first P xs)"

fun insert_sorted :: "('a \<Rightarrow> 'a \<Rightarrow> bool) \<Rightarrow> 'a \<Rightarrow> 'a list \<Rightarrow> 'a list" where
  "insert_sorted le x [] = [x]"
| "insert_sorted le x (y # ys) = (if le x y then x # y # ys else y # insert_sorted le x ys)"

definition sort_docs :: "('a \<Rightarrow> 'a \<Rightarrow> bool) \<Rightarrow> 'a list \<Rightarrow> 'a list" where
  "sort_docs le xs = foldr (insert_sorted le) xs []"

subsection \<open>The schema of \<^verbatim>\<open>blog.model.ts\<close>\<close>

text \<open>The setters of the schema: \<^verbatim>\<open>trim\<close> on \<^verbatim>\<open>title\<close> and on the \<^verbatim>\<open>url\<close> of an image,
  \<^verbatim>\<open>lowercase\<close> and \<^verbatim>\<open>trim\<close> on \<^verbatim>\<open>slug\<close>, on each tag and on each SEO keyword.\<close>

definition cast_slug :: "string \<Rightarrow> string" where
  "cast_slug s = trim (toLowerCase s)"

definition cast_tags :: "string list \<Rightarrow> string list" where
  "cast_tags ts = map (\<lambda>t. trim (toLowerCase t)) ts"

definition cast_FeaturedImage :: "IFeaturedImage \<Rightarrow> IFeaturedImage" where
  "cast_FeaturedImage img = img\<lparr>url := trim (url img)\<rparr>"

definition cast_Seo :: "IBlogSEO \<Rightarrow> IBlogSEO" where
  "cast_Seo s = s\<lparr>seo_keywords := cast_tags (seo_keywords s)\<rparr>"

text \<open>
  \<^verbatim>\<open>{ $set: updates }\<close> on a document, under the schema. The path \<^verbatim>\<open>slug\<close> is declared
  \<^verbatim>\<open>immutable: true\<close> and the schema is strict, so a \<^verbatim>\<open>slug\<close> key of the update is
  dropped. \<^verbatim>\<open>timestamps: true\<close> makes every update write \<^verbatim>\<open>updatedAt\<close>. \<open>cat\<close> is the
  category of the update cast to an \<^verbatim>\<open>ObjectId\<close>.
\<close>

definition schema_set :: "IUpdateBlogDto \<Rightarrow> ObjectId option \<Rightarrow> Date \<Rightarrow> IBlog \<Rightarrow> IBlog" where
  "schema_set u cat now d = d\<lparr>
     title := (case upd_title u of None \<Rightarrow> title d | Some t \<Rightarrow> trim t),
     content := (case upd_content u of None \<Rightarrow> content d | Some c \<Rightarrow> c),
     excerpt := (case upd_excerpt u of None \<Rightarrow> excerpt d | Some e \<Rightarrow> Some e),
     category := (case cat of None \<Rightarrow> category d | Some c \<Rightarrow> c),
     tags := (case upd_tags u of None \<Rightarrow> tags d | Some ts \<Rightarrow> cast_tags ts),
     featuredImage := (case upd_featuredImage u of None \<Rightarrow> featuredImage d
                       | Some v \<Rightarrow> map_option cast_FeaturedImage v),
     status := (case upd_status u of None \<Rightarrow> status d | Some s \<Rightarrow> s),
     visibility := (case upd_visibility u of None \<Rightarrow> visibility d | Some v \<Rightarrow> v),
     seo := (case upd_seo u of None \<Rightarrow> seo d | Some v \<Rightarrow> map_option cast_Seo v),
     publishedAt := (case upd_publishedAt u of None \<Rightarrow> publishedAt d | Some v \<Rightarrow> v),
     scheduledFor := (case upd_scheduledFor u of None \<Rightarrow> scheduledFor d | Some v \<Rightarrow> v),
     updatedAt := now\<rparr>"

definition cast_category :: "IUpdateBlogDto \<Rightarrow> thrown + ObjectId option" where
  "cast_category u =
     (case upd_category u of
        None \<Rightarrow> Inr None
      | Some c \<Rightarrow> (case new_ObjectId c of None \<Rightarrow> Inl CastError | Some oid \<Rightarrow> Inr (Some oid)))"

text \<open>The validators that \<^verbatim>\<open>Blog.create\<close> runs on a new document, after the setters.\<close>

definition validate_new :: "ICreateBlogDto \<Rightarrow> bool" where
  "validate_new p =
     (10 \<le> length (trim (new_title p)) \<and> length (trim (new_title p)) \<le> 200
      \<and> (case new_slug p of None \<Rightarrow> False | Some s \<Rightarrow> cast_slug s \<noteq> [])
      \<and> 100 \<le> length (new_content p)
      \<and> (case new_excerpt p of None \<Rightarrow> True | Some e \<Rightarrow> length e \<le> 300)
      \<and> (case new_author p of None \<Rightarrow> False | Some a \<Rightarrow> ObjectId_isValid a)
      \<and> ObjectId_isValid (new_category p)
      \<and> (case new_featuredImage p of None \<Rightarrow> True | Some img \<Rightarrow> trim (url img) \<noteq> []))"

text \<open>The document of a valid payload: setters applied, defaults filled in.\<close>

definition new_document :: "ObjectId \<Rightarrow> Date \<Rightarrow> ICreateBlogDto \<Rightarrow> IBlog" where
  "new_document oid now p = \<lparr>
     post_id = oid,
     title = trim (new_title p),
     slug = cast_slug (case new_slug p of None \<Rightarrow> [] | Some s \<Rightarrow> s),
     content = new_content p,
     excerpt = new_excerpt p,
     author = OID (toLowerCase (case new_author p of None \<Rightarrow> [] | Some a \<Rightarrow> a)),
     category = OID (toLowerCase (new_category p)),
     tags = (case new_tags p of None \<Rightarrow> [] | Some ts \<Rightarrow> cast_tags ts),
     featuredImage = map_option cast_FeaturedImage (new_featuredImage p),
     status = (case new_status p of None \<Rightarrow> DRAFT | Some s \<Rightarrow> s),
     visibility = (case new_visibility p of None \<Rightarrow> PUBLIC | Some v \<Rightarrow> v),
     viewCount = 0,
     likes = [],
     readTime = 0,
     seo = map_option cast_Seo (new_seo p),
     publishedAt = None,
     scheduledFor = new_scheduledFor p,
     createdAt = now,
     updatedAt = now\<rparr>"

subsection \<open>The calls of the repository into the store\<close>

text \<open>\<^verbatim>\<open>Blog.create(data)\<close>: the document is built and validated, then inserted; the unique
  indexes on \<^verbatim>\<open>_id\<close> and \<^verbatim>\<open>slug\<close> reject a duplicate.\<close>

definition Blog_create :: "world \<Rightarrow> ICreateBlogDto \<Rightarrow> (thrown + IBlog) \<times> world" where
  "Blog_create w p =
     (let oid = id_supply w 0;
          w0 = w\<lparr>id_supply := (\<lambda>n. id_supply w (Suc n))\<rparr>
      in if \<not> validate_new p then (Inl ValidationError, w0)
         else case round_trip w0 of (f, w1) \<Rightarrow>
           if f then (Inl StoreError, w1)
           else let d = new_document oid (clock w1) p
                in if (\<exists>x \<in> set (docs w1). post_id x = post_id d \<or> slug x = slug d)
                   then (Inl DuplicateKeyError, w1)
                   else (Inr d, w1\<lparr>docs := docs w1 @ [d]\<rparr>))"

text \<open>\<^verbatim>\<open>Blog.findById(id).lean()\<close> and \<^verbatim>\<open>Blog.findOne({ slug }).lean()\<close>.\<close>

definition Blog_findById :: "world \<Rightarrow> string \<Rightarrow> (thrown + IBlog option) \<times> world" where
  "Blog_findById w i =
     (case new_ObjectId i of
        None \<Rightarrow> (Inl CastError, w)
      | Some oid \<Rightarrow> (case round_trip w of (f, w1) \<Rightarrow>
          if f then (Inl StoreError, w1) else (Inr (find_doc (docs w1) oid), w1)))"

definition Blog_findOne_slug :: "world \<Rightarrow> string \<Rightarrow> (thrown + IBlog option) \<times> world" where
  "Blog_findOne_slug w s =
     (case round_trip w of (f, w1) \<Rightarrow>
        if f then (Inl StoreError, w1)
        else (Inr (find (\<lambda>d. slug d = cast_slug s) (docs w1)), w1))"

text \<open>\<^verbatim>\<open>Blog.findByIdAndUpdate(id, { $set: updates }, { new: true }).lean()\<close>: the updated
  document, or \<^verbatim>\<open>null\<close> when no document has the identifier.\<close>

definition Blog_findByIdAndUpdate_set ::
  "world \<Rightarrow> string \<Rightarrow> IUpdateBlogDto \<Rightarrow> (thrown + IBlog option) \<times> world" where
  "Blog_findByIdAndUpdate_set w i u =
     (case new_ObjectId i of
        None \<Rightarrow> (Inl CastError, w)
      | Some oid \<Rightarrow> (case cast_category u of
          Inl e \<Rightarrow> (Inl e, w)
        | Inr cat \<Rightarrow> (case round_trip w of (f, w1) \<Rightarrow>
            if f then (Inl StoreError, w1)
            else (case find_doc (docs w1) oid of
                None \<Rightarrow> (Inr None, w1)
              | Some d \<Rightarrow>
                  (Inr (Some (schema_set u cat (clock w1) d)),
                   w1\<lparr>docs := update_first (\<lambda>x. post_id x = oid)
                                  (schema_set u cat (clock w1)) (docs w1)\<rparr>)))))"

text \<open>\<^verbatim>\<open>Blog.findByIdAndDelete(id)\<close>: the deleted document or \<^verbatim>\<open>null\<close>.\<close>

definition Blog_findByIdAndDelete :: "world \<Rightarrow> string \<Rightarrow> (thrown + IBlog option) \<times> world" where
  "Blog_findByIdAndDelete w i =
     (case new_ObjectId i of
        None \<Rightarrow> (Inl CastError, w)
      | Some oid \<Rightarrow> (case round_trip w of (f, w1) \<Rightarrow>
          if f then (Inl StoreError, w1)
          else (Inr (find_doc (docs w1) oid),
                w1\<lparr>docs := remove_first (\<lambda>x. post_id x = oid) (docs w1)\<rparr>)))"

text \<open>\<^verbatim>\<open>Blog.findByIdAndUpdate(id, { $inc: { viewCount: 1 } })\<close>: the document as it was
  before the update, or \<^verbatim>\<open>null\<close>.\<close>

definition Blog_findByIdAndUpdate_inc :: "world \<Rightarrow> string \<Rightarrow> (thrown + IBlog option) \<times> world" where
  "Blog_findByIdAndUpdate_inc w i =
     (case new_ObjectId i of
        None \<Rightarrow> (Inl CastError, w)
      | Some oid \<Rightarrow> (case round_trip w of (f, w1) \<Rightarrow>
          if f then (Inl StoreError, w1)
          else (Inr (find_doc (docs w1) oid),
                w1\<lparr>docs := update_first (\<lambda>x. post_id x = oid)
                     (\<lambda>x. x\<lparr>viewCount := viewCount x + 1, updatedAt := clock w1\<rparr>) (docs w1)\<rparr>)))"

text \<open>The result of \<^verbatim>\<open>Blog.updateOne\<close>.\<close>

record UpdateResult =
  matchedCount :: nat
  modifiedCount :: nat

text \<open>\<^verbatim>\<open>Blog.updateOne({ _id, likes: { $not: { $elemMatch: { user } } } },
  { $push: { likes: { user, likedAt } } })\<close>.\<close>

definition Blog_updateOne_push ::
  "world \<Rightarrow> ObjectId \<Rightarrow> ObjectId \<Rightarrow> Date \<Rightarrow> (thrown + UpdateResult) \<times> world" where
  "Blog_updateOne_push w postObjectId userObjectId stamp =
     (case round_trip w of (f, w1) \<Rightarrow>
        if f then (Inl StoreError, w1)
        else let guard = (\<lambda>x. post_id x = postObjectId
                               \<and> \<not> (\<exists>l \<in> set (likes x). user l = userObjectId))
             in if (\<exists>x \<in> set (docs w1). guard x)
                then (Inr \<lparr>matchedCount = 1, modifiedCount = 1\<rparr>,
                      w1\<lparr>docs := update_first guard
                           (\<lambda>x. x\<lparr>likes := likes x @ [\<lparr>user = userObjectId, likedAt = stamp\<rparr>],
                                  updatedAt := clock w1\<rparr>) (docs w1)\<rparr>)
                else (Inr \<lparr>matchedCount = 0, modifiedCount = 0\<rparr>, w1))"

text \<open>\<^verbatim>\<open>Blog.updateOne({ _id, "likes.user": user }, { $pull: { likes: { user } } })\<close>.\<close>

definition Blog_updateOne_pull ::
  "world \<Rightarrow> ObjectId \<Rightarrow> ObjectId \<Rightarrow> (thrown + UpdateResult) \<times> world" where
  "Blog_updateOne_pull w postObjectId userObjectId =
     (case round_trip w of (f, w1) \<Rightarrow>
        if f then (Inl StoreError, w1)
        else let guard = (\<lambda>x. post_id x = postObjectId
                               \<and> (\<exists>l \<in> set (likes x). user l = userObjectId))
             in if (\<exists>x \<in> set (docs w1). guard x)
                then (Inr \<lparr>matchedCount = 1, modifiedCount = 1\<rparr>,
                      w1\<lparr>docs := update_first guard
                           (\<lambda>x. x\<lparr>likes := filter (\<lambda>l. user l \<noteq> userObjectId) (likes x),
                                  updatedAt := clock w1\<rparr>) (docs w1)\<rparr>)
                else (Inr \<lparr>matchedCount = 0, modifiedCount = 0\<rparr>, w1))"

text \<open>The filter of a list retrieval: no predicate, or \<^verbatim>\<open>{ $text: { $search } }\<close>.\<close>

definition matches :: "collaborators \<Rightarrow> string option \<Rightarrow> IBlog \<Rightarrow> bool" where
  "matches c flt d = (case flt of None \<Rightarrow> True | Some s \<Rightarrow> text_search c s d)"

text \<open>
  \<^verbatim>\<open>Blog.find(filter).sort(sort).skip(skip).limit(limit).lean()\<close>. The store rejects a
  negative \<^verbatim>\<open>skip\<close>; a \<^verbatim>\<open>limit\<close> of 0 is no limit, and a negative one stands for its
  absolute value. The direction is 1 for ascending and -1 for descending.
\<close>

definition Blog_find ::
  "collaborators \<Rightarrow> world \<Rightarrow> string option \<Rightarrow> string \<Rightarrow> int \<Rightarrow> int \<Rightarrow> int
     \<Rightarrow> (thrown + IBlog list) \<times> world" where
  "Blog_find c w flt sortBy dir skip limit =
     (case round_trip w of (f, w1) \<Rightarrow>
        if f \<or> skip < 0 then (Inl StoreError, w1)
        else let hits = filter (matches c flt) (docs w1);
                 ordered = sort_docs (if dir = 1 then sorts_before c sortBy
                                      else (\<lambda>a b. sorts_before c sortBy b a)) hits;
                 rest = drop (nat skip) ordered
             in (Inr (if limit = 0 then rest else take (nat \<bar>limit\<bar>) rest), w1))"

definition Blog_countDocuments ::
  "collaborators \<Rightarrow> world \<Rightarrow> string option \<Rightarrow> (thrown + int) \<times> world" where
  "Blog_countDocuments c w flt =
     (case round_trip w of (f, w1) \<Rightarrow>
        if f then (Inl StoreError, w1)
        else (Inr (int (length (filter (matches c flt) (docs w1)))), w1))"

section \<open>The repository (\<^verbatim>\<open>BlogRepository\<close>)\<close>

text \<open>Every method wraps its calls into the store in \<^verbatim>\<open>try\<close>/\<^verbatim>\<open>catch\<close>: what is thrown is
  logged and turned into a value. \<^verbatim>\<open>null\<close> is \<open>None\<close>, so a \<^verbatim>\<open>boolean | null\<close> is a
  \<open>bool option\<close>.\<close>

definition normalize_blog :: "IBlog \<Rightarrow> IBlogPostEntity" where
  "normalize_blog blog = \<lparr>
     post_id = toString (post_id blog),
     title = title blog,
     slug = slug blog,
     content = content blog,
     excerpt = excerpt blog,
     author = toString (author blog),
     category = toString (category blog),
     tags = tags blog,
     featuredImage = featuredImage blog,
     status = status blog,
     visibility = visibility blog,
     viewCount = viewCount blog,
     likes = map (\<lambda>l. \<lparr>user = toString (user l), likedAt = likedAt l\<rparr>) (likes blog),
     readTime = readTime blog,
     seo = seo blog,
     publishedAt = publishedAt blog,
     scheduledFor = scheduledFor blog,
     createdAt = createdAt blog,
     updatedAt = updatedAt blog\<rparr>"

definition BlogRepository_create ::
  "world \<Rightarrow> ICreateBlogDto \<Rightarrow> IBlogPostEntity option \<times> world" where
  "BlogRepository_create w dto =
     (case Blog_create w dto of
        (Inl e, w1) \<Rightarrow> (None, logger_error ''Error creating blog post: %o'' w1)
      | (Inr blog, w1) \<Rightarrow> (Some (normalize_blog blog), w1))"

text \<open>\<^verbatim>\<open>Math.ceil(total / limit)\<close> on integers.\<close>

definition Math_ceil_div :: "int \<Rightarrow> int \<Rightarrow> number" where
  "Math_ceil_div a b =
     (if b = 0 then (if a = 0 then NaN else if 0 < a then PosInfinity else NegInfinity)
      else Finite (- ((- a) div b)))"

definition empty_page :: "IBlogPostEntity PaginatedData" where
  "empty_page = \<lparr>data = [],
     pagination = \<lparr>pg_page = 1, pg_limit = 10, pg_total = 0, pg_totalPages = Finite 0\<rparr>\<rparr>"

text \<open>The \<^verbatim>\<open>try\<close> block of \<^verbatim>\<open>findAll\<close>. \<^verbatim>\<open>Promise.all\<close> starts both calls into the store,
  and throws when one of them does.\<close>

definition findAll_try ::
  "collaborators \<Rightarrow> world \<Rightarrow> IQueryParams
     \<Rightarrow> (thrown + IBlogPostEntity PaginatedData) \<times> world" where
  "findAll_try c w params =
     (let page = (case q_page params of None \<Rightarrow> 1 | Some p \<Rightarrow> p);
          limit = (case q_limit params of None \<Rightarrow> 10 | Some l \<Rightarrow> l);
          search = (case q_search params of None \<Rightarrow> [] | Some s \<Rightarrow> s);
          sortBy = (case q_sortBy params of None \<Rightarrow> ''createdAt'' | Some k \<Rightarrow> k);
          sortOrder = (case q_sortOrder params of None \<Rightarrow> desc | Some d \<Rightarrow> d);
          skip = (page - 1) * limit;
          flt = (if trim search \<noteq> [] then Some search else None);
          dir = (if sortOrder = asc then 1 else - 1)
      in case Blog_find c w flt sortBy dir skip limit of (found, w1) \<Rightarrow>
         case Blog_countDocuments c w1 flt of (counted, w2) \<Rightarrow>
           (case found of
              Inl e \<Rightarrow> (Inl e, w2)
            | Inr blogs \<Rightarrow>
                (case counted of
                   Inl e \<Rightarrow> (Inl e, w2)
                 | Inr total' \<Rightarrow>
                     (Inr \<lparr>data = map normalize_blog blogs,
                           pagination = \<lparr>pg_page = page, pg_limit = limit, pg_total = total',
                                         pg_totalPages = Math_ceil_div total' limit\<rparr>\<rparr>, w2))))"

text \<open>\<^verbatim>\<open>findAll\<close>: the \<^verbatim>\<open>try\<close> block, and the \<^verbatim>\<open>catch\<close> that logs and returns the empty
  page.\<close>

definition BlogRepository_findAll ::
  "collaborators \<Rightarrow> world \<Rightarrow> IQueryParams \<Rightarrow> IBlogPostEntity PaginatedData \<times> world" where
  "BlogRepository_findAll c w params =
     (case findAll_try c w params of
        (Inl error, w1) \<Rightarrow> (empty_page, logger_error ''Error fetching blogs: %o'' w1)
      | (Inr page, w1) \<Rightarrow> (page, w1))"

definition BlogRepository_findById :: "world \<Rightarrow> string \<Rightarrow> IBlogPostEntity option \<times> world" where
  "BlogRepository_findById w i =
     (if \<not> ObjectId_isValid i then (None, w)
      else case Blog_findById w i of
             (Inl e, w1) \<Rightarrow> (None, logger_error ''Error finding blog by id %s: %o'' w1)
           | (Inr None, w1) \<Rightarrow> (None, w1)
           | (Inr (Some blog), w1) \<Rightarrow> (Some (normalize_blog blog), w1))"

definition BlogRepository_findBySlug :: "world \<Rightarrow> string \<Rightarrow> IBlogPostEntity option \<times> world" where
  "BlogRepository_findBySlug w s =
     (case Blog_findOne_slug w s of
        (Inl e, w1) \<Rightarrow> (None, logger_error ''Error finding blog by slug %s: %o'' w1)
      | (Inr None, w1) \<Rightarrow> (None, w1)
      | (Inr (Some blog), w1) \<Rightarrow> (Some (normalize_blog blog), w1))"

definition BlogRepository_updateById ::
  "world \<Rightarrow> string \<Rightarrow> IUpdateBlogDto \<Rightarrow> IBlogPostEntity option \<times> world" where
  "BlogRepository_updateById w i updates =
     (case Blog_findByIdAndUpdate_set w i updates of
        (Inl e, w1) \<Rightarrow> (None, logger_error ''Error updating blog %s: %o'' w1)
      | (Inr None, w1) \<Rightarrow> (None, w1)
      | (Inr (Some updated), w1) \<Rightarrow> (Some (normalize_blog updated), w1))"

definition BlogRepository_deleteById :: "world \<Rightarrow> string \<Rightarrow> bool \<times> world" where
  "BlogRepository_deleteById w i =
     (case Blog_findByIdAndDelete w i of
        (Inl e, w1) \<Rightarrow> (False, logger_error ''Error deleting blog %s: %o'' w1)
      | (Inr deleted, w1) \<Rightarrow> (deleted \<noteq> None, w1))"

definition BlogRepository_incrementViewCount :: "world \<Rightarrow> string \<Rightarrow> bool option \<times> world" where
  "BlogRepository_incrementViewCount w i =
     (case Blog_findByIdAndUpdate_inc w i of
        (Inl e, w1) \<Rightarrow> (Some False, logger_error ''Error incrementing view count for %s: %o'' w1)
      | (Inr None, w1) \<Rightarrow> (None, w1)
      | (Inr (Some result), w1) \<Rightarrow> (Some True, w1))"

definition BlogRepository_addLike :: "world \<Rightarrow> string \<Rightarrow> string \<Rightarrow> bool option \<times> world" where
  "BlogRepository_addLike w postId userId =
     (case new_ObjectId postId of
        None \<Rightarrow> (Some False, logger_error ''Error adding like to %s: %o'' w)
      | Some postObjectId \<Rightarrow>
          (case new_ObjectId userId of
             None \<Rightarrow> (Some False, logger_error ''Error adding like to %s: %o'' w)
           | Some userObjectId \<Rightarrow>
               (case Blog_updateOne_push w postObjectId userObjectId (new_Date w) of
                  (Inl e, w1) \<Rightarrow> (Some False, logger_error ''Error adding like to %s: %o'' w1)
                | (Inr result, w1) \<Rightarrow>
                    if matchedCount result = 0 \<or> modifiedCount result = 0 then (None, w1)
                    else (Some True, w1))))"

definition BlogRepository_removeLike :: "world \<Rightarrow> string \<Rightarrow> string \<Rightarrow> bool option \<times> world" where
  "BlogRepository_removeLike w postId userId =
     (case new_ObjectId postId of
        None \<Rightarrow> (Some False, logger_error ''Error removing like from %s: %o'' w)
      | Some postObjectId \<Rightarrow>
          (case new_ObjectId userId of
             None \<Rightarrow> (Some False, logger_error ''Error removing like from %s: %o'' w)
           | Some userObjectId \<Rightarrow>
               (case Blog_updateOne_pull w postObjectId userObjectId of
                  (Inl e, w1) \<Rightarrow> (Some False, logger_error ''Error removing like from %s: %o'' w1)
                | (Inr result, w1) \<Rightarrow>
                    if matchedCount result = 0 \<or> modifiedCount result = 0 then (None, w1)
                    else (Some True, w1))))"

text \<open>The payload with no key.\<close>

definition no_updates :: IUpdateBlogDto where
  "no_updates = \<lparr>upd_title = None, upd_slug = None, upd_content = None, upd_excerpt = None,
     upd_category = None, upd_tags = None, upd_featuredImage = None, upd_status = None,
     upd_visibility = None, upd_seo = None, upd_publishedAt = None, upd_scheduledFor = None\<rparr>"

definition BlogRepository_schedule ::
  "world \<Rightarrow> string \<Rightarrow> Date \<Rightarrow> IBlogPostEntity option \<times> world" where
  "BlogRepository_schedule w postId publishDate =
     BlogRepository_updateById w postId
       (no_updates\<lparr>upd_scheduledFor := Some (Some publishDate), upd_status := Some SCHEDULED\<rparr>)"

definition BlogRepository_publish :: "world \<Rightarrow> string \<Rightarrow> IBlogPostEntity option \<times> world" where
  "BlogRepository_publish w postId =
     BlogRepository_updateById w postId
       (no_updates\<lparr>upd_status := Some PUBLISHED,
                   upd_publishedAt := Some (Some (new_Date w)),
                   upd_scheduledFor := Some (Some (new_Date w))\<rparr>)"

definition BlogRepository_archive :: "world \<Rightarrow> string \<Rightarrow> IBlogPostEntity option \<times> world" where
  "BlogRepository_archive w postId =
     BlogRepository_updateById w postId (no_updates\<lparr>upd_status := Some ARCHIVED\<rparr>)"

section \<open>The service (\<^verbatim>\<open>BlogService\<close>)\<close>

text \<open>A method returns its value (\<open>Inr\<close>) or throws an \<^verbatim>\<open>ApiError\<close> (\<open>Inl\<close>).\<close>

definition BlogService_create ::
  "collaborators \<Rightarrow> world \<Rightarrow> ICreateBlogDto \<Rightarrow> (ApiError + IBlogPostEntity) \<times> world" where
  "BlogService_create c w post =
     (if new_title post = [] \<or> new_content post = []
      then (Inl (ApiError ''Title and content are required'' 400 BAD_REQUEST), w)
      else let slug' = (case new_slug post of None \<Rightarrow> slugify c (new_title post) | Some s \<Rightarrow> s);
               payload = post\<lparr>
                 new_slug := Some slug',
                 new_status := Some (case new_status post of None \<Rightarrow> DRAFT | Some s \<Rightarrow> s),
                 new_visibility :=
                   Some (case new_visibility post of None \<Rightarrow> PUBLIC | Some v \<Rightarrow> v)\<rparr>
           in case BlogRepository_create w payload of
                (None, w1) \<Rightarrow>
                  (Inl (ApiError ''Failed to create blog post'' 500 INTERNAL_SERVER_ERROR), w1)
              | (Some created, w1) \<Rightarrow> (Inr created, w1))"

definition BlogService_getById ::
  "world \<Rightarrow> string \<Rightarrow> bool \<Rightarrow> (ApiError + IBlogPostEntity) \<times> world" where
  "BlogService_getById w i includeDrafts =
     (case BlogRepository_findById w i of
        (None, w1) \<Rightarrow> (Inl (ApiError ''Blog post not found'' 404 NOT_FOUND), w1)
      | (Some blog, w1) \<Rightarrow>
          if \<not> includeDrafts \<and> status blog = DRAFT
          then (Inl (ApiError ''Blog post is not published'' 403 FORBIDDEN), w1)
          else (Inr blog, w1))"

definition BlogService_getBySlug ::
  "world \<Rightarrow> string \<Rightarrow> bool \<Rightarrow> (ApiError + IBlogPostEntity) \<times> world" where
  "BlogService_getBySlug w s includeDrafts =
     (case BlogRepository_findBySlug w s of
        (None, w1) \<Rightarrow> (Inl (ApiError ''Blog post not found'' 404 NOT_FOUND), w1)
      | (Some blog, w1) \<Rightarrow>
          if \<not> includeDrafts \<and> status blog = DRAFT
          then (Inl (ApiError ''Blog post is not published'' 403 FORBIDDEN), w1)
          else (Inr blog, w1))"

text \<open>An array, also the empty one, is truthy; so \<^verbatim>\<open>!result?.data\<close> asks whether the
  result or its \<^verbatim>\<open>data\<close> is missing.\<close>

definition data_missing :: "'a PaginatedData option \<Rightarrow> bool" where
  "data_missing result = (case result of None \<Rightarrow> True | Some r \<Rightarrow> False)"

definition BlogService_getAll ::
  "collaborators \<Rightarrow> world \<Rightarrow> IQueryParams
     \<Rightarrow> (ApiError + IBlogPostEntity PaginatedData) \<times> world" where
  "BlogService_getAll c w query =
     (case BlogRepository_findAll c w query of (result, w1) \<Rightarrow>
        if data_missing (Some result)
        then (Inl (ApiError ''No blog posts found'' 404 NOT_FOUND), w1)
        else (Inr result, w1))"

text \<open>\<^verbatim>\<open>Object.keys(updateData).length\<close>.\<close>

definition keys_length :: "IUpdateBlogDto \<Rightarrow> nat" where
  "keys_length u = length (filter (\<lambda>present. present)
     [upd_title u \<noteq> None, upd_slug u \<noteq> None, upd_content u \<noteq> None, upd_excerpt u \<noteq> None,
      upd_category u \<noteq> None, upd_tags u \<noteq> None, upd_featuredImage u \<noteq> None,
      upd_status u \<noteq> None, upd_visibility u \<noteq> None, upd_seo u \<noteq> None,
      upd_publishedAt u \<noteq> None, upd_scheduledFor u \<noteq> None])"

definition BlogService_update ::
  "world \<Rightarrow> string \<Rightarrow> IUpdateBlogDto \<Rightarrow> (ApiError + IBlogPostEntity) \<times> world" where
  "BlogService_update w i updateData =
     (if i = [] then (Inl (ApiError ''Blog ID is required'' 400 BAD_REQUEST), w)
      else if keys_length updateData = 0
      then (Inl (ApiError ''No update data provided'' 400 BAD_REQUEST), w)
      else case BlogRepository_findById w i of
             (None, w1) \<Rightarrow> (Inl (ApiError ''Blog post not found'' 404 NOT_FOUND), w1)
           | (Some existing, w1) \<Rightarrow>
               (case BlogRepository_updateById w1 i updateData of
                  (None, w2) \<Rightarrow>
                    (Inl (ApiError ''Failed to update blog post'' 500 INTERNAL_SERVER_ERROR), w2)
                | (Some updated, w2) \<Rightarrow> (Inr updated, w2)))"

definition BlogService_delete :: "world \<Rightarrow> string \<Rightarrow> (ApiError + bool) \<times> world" where
  "BlogService_delete w i =
     (case BlogRepository_deleteById w i of (deleted, w1) \<Rightarrow>
        if \<not> deleted then (Inl (ApiError ''Blog post not found'' 404 NOT_FOUND), w1)
        else (Inr True, w1))"

definition BlogService_incrementViewCount ::
  "world \<Rightarrow> string \<Rightarrow> (ApiError + bool) \<times> world" where
  "BlogService_incrementViewCount w i =
     (case BlogRepository_incrementViewCount w i of (result, w1) \<Rightarrow>
        if result = None then (Inl (ApiError ''Blog post not found'' 404 NOT_FOUND), w1)
        else if result = Some False
        then (Inl (ApiError ''Failed to increment view count'' 500 INTERNAL_SERVER_ERROR), w1)
        else (Inr True, w1))"

text \<open>\<^verbatim>\<open>!success\<close> holds of \<^verbatim>\<open>null\<close> and of \<^verbatim>\<open>false\<close>.\<close>

definition falsy :: "bool option \<Rightarrow> bool" where
  "falsy b = (case b of None \<Rightarrow> True | Some v \<Rightarrow> \<not> v)"

definition BlogService_addLike ::
  "world \<Rightarrow> string \<Rightarrow> string \<Rightarrow> (ApiError + bool) \<times> world" where
  "BlogService_addLike w postId userId =
     (case BlogRepository_findById w postId of
        (None, w1) \<Rightarrow> (Inl (ApiError ''Blog post not found'' 404 NOT_FOUND), w1)
      | (Some post, w1) \<Rightarrow>
          (case BlogRepository_addLike w1 postId userId of (success, w2) \<Rightarrow>
             if falsy success then (Inl (ApiError ''Blog already liked'' 409 CONFLICT), w2)
             else (Inr True, w2)))"

definition BlogService_removeLike ::
  "world \<Rightarrow> string \<Rightarrow> string \<Rightarrow> (ApiError + bool) \<times> world" where
  "BlogService_removeLike w postId userId =
     (case BlogRepository_findById w postId of
        (None, w1) \<Rightarrow> (Inl (ApiError ''Blog post not found'' 404 NOT_FOUND), w1)
      | (Some post, w1) \<Rightarrow>
          (case BlogRepository_removeLike w1 postId userId of (success, w2) \<Rightarrow>
             if falsy success then (Inl (ApiError ''Like not found'' 409 CONFLICT), w2)
             else (Inr True, w2)))"

definition BlogService_schedule ::
  "world \<Rightarrow> string \<Rightarrow> Date \<Rightarrow> (ApiError + IBlogPostEntity) \<times> world" where
  "BlogService_schedule w postId publishDate =
     (if publishDate \<le> new_Date w
      then (Inl (ApiError ''Publish date must be in the future'' 400 BAD_REQUEST), w)
      else case BlogRepository_findById w postId of
             (None, w1) \<Rightarrow> (Inl (ApiError ''Blog post not found'' 404 NOT_FOUND), w1)
           | (Some post, w1) \<Rightarrow>
               (case BlogRepository_schedule w1 postId publishDate of
                  (None, w2) \<Rightarrow>
                    (Inl (ApiError ''Failed to schedule blog post'' 500 INTERNAL_SERVER_ERROR), w2)
                | (Some scheduled, w2) \<Rightarrow> (Inr scheduled, w2)))"

definition BlogService_publish ::
  "world \<Rightarrow> string \<Rightarrow> (ApiError + IBlogPostEntity) \<times> world" where
  "BlogService_publish w postId =
     (case BlogRepository_findById w postId of
        (None, w1) \<Rightarrow> (Inl (ApiError ''Blog post not found'' 404 NOT_FOUND), w1)
      | (Some post, w1) \<Rightarrow>
          if status post = PUBLISHED
          then (Inl (ApiError ''Blog post already published'' 409 CONFLICT), w1)
          else (case BlogRepository_publish w1 postId of
                  (None, w2) \<Rightarrow>
                    (Inl (ApiError ''Failed to publish blog post'' 500 INTERNAL_SERVER_ERROR), w2)
                | (Some published, w2) \<Rightarrow> (Inr published, w2)))"

definition BlogService_archive ::
  "world \<Rightarrow> string \<Rightarrow> (ApiError + IBlogPostEntity) \<times> world" where
  "BlogService_archive w postId =
     (case BlogRepository_findById w postId of
        (None, w1) \<Rightarrow> (Inl (ApiError ''Blog post not found'' 404 NOT_FOUND), w1)
      | (Some post, w1) \<Rightarrow>
          (case BlogRepository_archive w1 postId of
             (None, w2) \<Rightarrow>
               (Inl (ApiError ''Failed to archive blog post'' 500 INTERNAL_SERVER_ERROR), w2)
           | (Some archived, w2) \<Rightarrow> (Inr archived, w2)))"

text \<open>The operations that the service exposes, and the store after one of them.\<close>

datatype request =
  Create ICreateBlogDto
  | GetById string bool
  | GetBySlug string bool
  | GetAll IQueryParams
  | Update string IUpdateBlogDto
  | Delete string
  | IncrementViewCount string
  | AddLike string string
  | RemoveLike string string
  | Schedule string Date
  | Publish string
  | Archive string

fun serve :: "collaborators \<Rightarrow> world \<Rightarrow> request \<Rightarrow> world" where
  "serve c w (Create post) = snd (BlogService_create c w post)"
| "serve c w (GetById i includeDrafts) = snd (BlogService_getById w i includeDrafts)"
| "serve c w (GetBySlug s includeDrafts) = snd (BlogService_getBySlug w s includeDrafts)"
| "serve c w (GetAll query) = snd (BlogService_getAll c w query)"
| "serve c w (Update i updateData) = snd (BlogService_update w i updateData)"
| "serve c w (Delete i) = snd (BlogService_delete w i)"
| "serve c w (IncrementViewCount i) = snd (BlogService_incrementViewCount w i)"
| "serve c w (AddLike postId userId) = snd (BlogService_addLike w postId userId)"
| "serve c w (RemoveLike postId userId) = snd (BlogService_removeLike w postId userId)"
| "serve c w (Schedule postId publishDate) = snd (BlogService_schedule w postId publishDate)"
| "serve c w (Publish postId) = snd (BlogService_publish w postId)"
| "serve c w (Archive postId) = snd (BlogService_archive w postId)"

section \<open>Notions for the properties\<close>

text \<open>The document that the store holds under an identifier, or under a slug as a query
  for it is cast.\<close>

definition stored_by_id :: "world \<Rightarrow> string \<Rightarrow> IBlog option" where
  "stored_by_id w i = (case new_ObjectId i of None \<Rightarrow> None | Some oid \<Rightarrow> find_doc (docs w) oid)"

definition stored_by_slug :: "world \<Rightarrow> string \<Rightarrow> IBlog option" where
  "stored_by_slug w s = find (\<lambda>d. slug d = cast_slug s) (docs w)"

text \<open>The store keeps \<^verbatim>\<open>_id\<close> unique. A post has at most one like of a user.\<close>

definition ids_unique :: "world \<Rightarrow> bool" where
  "ids_unique w = distinct (map post_id (docs w))"

definition likes_unique :: "world \<Rightarrow> bool" where
  "likes_unique w = (\<forall>d \<in> set (docs w). distinct (map user (likes d)))"

text \<open>What one call of the repository may do to the collection: nothing, an update of
  the first document that a guard selects, which keeps identifier and slug of the document
  and keeps its likes free of duplicates, the removal of one document, or the insertion of a
  document with a new identifier and no likes.\<close>

inductive store_step :: "IBlog list \<Rightarrow> IBlog list \<Rightarrow> bool" where
  same: "store_step ds ds"
| updated: "(\<And>x. P x \<Longrightarrow> post_id (f x) = post_id x \<and> slug (f x) = slug x
              \<and> (distinct (map user (likes x)) \<longrightarrow> distinct (map user (likes (f x)))))
            \<Longrightarrow> store_step ds (update_first P f ds)"
| removed: "store_step ds (remove_first P ds)"
| inserted: "likes d = [] \<Longrightarrow> post_id d \<notin> post_id ` set ds \<Longrightarrow> store_step ds (ds @ [d])"

text \<open>Page and limit of a query with their defaults, and the documents that match a query
  in the order that it asks for.\<close>

definition query_page :: "IQueryParams \<Rightarrow> int" where
  "query_page params = (case q_page params of None \<Rightarrow> 1 | Some p \<Rightarrow> p)"

definition query_limit :: "IQueryParams \<Rightarrow> int" where
  "query_limit params = (case q_limit params of None \<Rightarrow> 10 | Some l \<Rightarrow> l)"

definition selected :: "collaborators \<Rightarrow> world \<Rightarrow> IQueryParams \<Rightarrow> IBlog list" where
  "selected c w params =
     (let search = (case q_search params of None \<Rightarrow> [] | Some s \<Rightarrow> s);
          sortBy = (case q_sortBy params of None \<Rightarrow> ''createdAt'' | Some k \<Rightarrow> k);
          sortOrder = (case q_sortOrder params of None \<Rightarrow> desc | Some d \<Rightarrow> d)
      in sort_docs (if sortOrder = asc then sorts_before c sortBy
                    else (\<lambda>a b. sorts_before c sortBy b a))
           (filter (matches c (if trim search \<noteq> [] then Some search else None)) (docs w)))"

section \<open>Sample data\<close>

text \<open>Concrete posts, stores and queries on which the theorems are instantiated.\<close>

definition hexdigit :: "nat \<Rightarrow> char" where
  "hexdigit n = ''0123456789abcdef'' ! (n mod 16)"

definition sample_id :: "nat \<Rightarrow> string" where
  "sample_id n = replicate 22 CHR ''0'' @ [hexdigit (n div 16), hexdigit n]"

definition sample_post :: "nat \<Rightarrow> IBlog" where
  "sample_post n = \<lparr>
     post_id = OID (sample_id n),
     title = ''A post about things'',
     slug = ''post-'' @ [hexdigit (n div 16), hexdigit n],
     content = replicate 100 CHR ''x'',
     excerpt = None,
     author = OID (sample_id 200),
     category = OID (sample_id 201),
     tags = [],
     featuredImage = None,
     status = DRAFT,
     visibility = PUBLIC,
     viewCount = 0,
     likes = [],
     readTime = 0,
     seo = None,
     publishedAt = None,
     scheduledFor = None,
     createdAt = 1000 + int n,
     updatedAt = 1000 + int n\<rparr>"

definition sample_world :: "IBlog list \<Rightarrow> bool list \<Rightarrow> world" where
  "sample_world ds fs = \<lparr>docs = ds, clock = 5000, faults = fs, logged = [],
     id_supply = (\<lambda>n. OID (sample_id (100 + n)))\<rparr>"

definition liked_post :: IBlog where
  "liked_post = (sample_post 1)\<lparr>likes := [\<lparr>user = OID (sample_id 7), likedAt = 4000\<rparr>]\<rparr>"

definition scheduled_post :: IBlog where
  "scheduled_post = (sample_post 1)\<lparr>status := SCHEDULED, scheduledFor := Some 9000\<rparr>"

definition published_post :: IBlog where
  "published_post = (sample_post 1)\<lparr>status := PUBLISHED, publishedAt := Some 3000\<rparr>"

definition payload_with_slug :: IUpdateBlogDto where
  "payload_with_slug = no_updates\<lparr>upd_slug := Some ''another-slug'',
     upd_title := Some ''Another title for it''\<rparr>"

definition sample_collaborators :: collaborators where
  "sample_collaborators = \<lparr>
     slugify = (\<lambda>t. map (\<lambda>ch. if ch = CHR '' '' then CHR ''-'' else ch)
                  (filter (\<lambda>ch. ch \<in> set ''abcdefghijklmnopqrstuvwxyz0123456789 '')
                     (toLowerCase t))),
     text_search = (\<lambda>s d. toLowerCase s = toLowerCase (title d)),
     sorts_before = (\<lambda>k a b. if k = ''viewCount'' then viewCount a \<le> viewCount b
                              else createdAt a \<le> createdAt b)\<rparr>"

definition sample_query :: "int \<Rightarrow> int \<Rightarrow> IQueryParams" where
  "sample_query p l = \<lparr>q_page = Some p, q_limit = Some l, q_search = None, q_sortBy = None,
     q_sortOrder = None\<rparr>"

section \<open>Lemmas\<close>

subsection \<open>Round trips and lookups\<close>

lemma round_trip_eq: "round_trip w = (fault_at w 0, w\<lparr>faults := tl (faults w)\<rparr>)"
  by (cases "faults w") (simp_all add: round_trip_def fault_at_def)

lemma fault_at_tl [simp]: "fault_at (w\<lparr>faults := tl (faults w)\<rparr>) n = fault_at w (Suc n)"
  by (simp add: fault_at_def drop_Suc)

lemma fault_at_logger [simp]: "fault_at (logger_error m w) n = fault_at w n"
  by (simp add: fault_at_def logger_error_def)

lemma docs_logger [simp]: "docs (logger_error m w) = docs w"
  by (simp add: logger_error_def)

lemma stored_valid: "stored_by_id w i = Some d \<Longrightarrow> ObjectId_isValid i"
  by (simp add: stored_by_id_def new_ObjectId_def split: if_splits)

lemma stored_by_id_faults [simp]: "stored_by_id (w\<lparr>faults := fs\<rparr>) i = stored_by_id w i"
  by (simp add: stored_by_id_def split: option.splits)

lemma stored_by_id_docs: "docs w2 = docs w1 \<Longrightarrow> stored_by_id w2 i = stored_by_id w1 i"
  by (simp add: stored_by_id_def split: option.splits)

lemma status_normalize [simp]: "status (normalize_blog d) = status d"
  by (simp add: normalize_blog_def)

lemma findById_eq:
  "BlogRepository_findById w i =
     (if \<not> ObjectId_isValid i then (None, w)
      else if fault_at w 0
        then (None, logger_error ''Error finding blog by id %s: %o'' (w\<lparr>faults := tl (faults w)\<rparr>))
        else (map_option normalize_blog (stored_by_id w i), w\<lparr>faults := tl (faults w)\<rparr>))"
  by (auto simp add: BlogRepository_findById_def Blog_findById_def round_trip_eq stored_by_id_def
      new_ObjectId_def split: option.splits)

lemma findById_docs: "BlogRepository_findById w i = (r, w1) \<Longrightarrow> docs w1 = docs w"
  by (auto simp add: findById_eq split: if_splits)

lemma findBySlug_eq:
  "BlogRepository_findBySlug w s =
     (if fault_at w 0
      then (None, logger_error ''Error finding blog by slug %s: %o'' (w\<lparr>faults := tl (faults w)\<rparr>))
      else (map_option normalize_blog (stored_by_slug w s), w\<lparr>faults := tl (faults w)\<rparr>))"
  by (auto simp add: BlogRepository_findBySlug_def Blog_findOne_slug_def round_trip_eq
      stored_by_slug_def split: option.splits)

lemma findBySlug_docs: "BlogRepository_findBySlug w s = (r, w1) \<Longrightarrow> docs w1 = docs w"
  by (auto simp add: findBySlug_eq split: if_splits)

subsection \<open>Updates of one document\<close>

lemma find_doc_update_first:
  "(\<And>x. post_id (f x) = post_id x) \<Longrightarrow>
   find_doc (update_first (\<lambda>x. post_id x = oid) f ds) oid = map_option f (find_doc ds oid)"
  by (induction ds) (simp_all add: find_doc_def)

lemma post_id_schema_set [simp]: "post_id (schema_set u cat now d) = post_id d"
  by (simp add: schema_set_def)

lemma slug_schema_set [simp]: "slug (schema_set u cat now d) = slug d"
  by (simp add: schema_set_def)

lemma likes_schema_set [simp]: "likes (schema_set u cat now d) = likes d"
  by (simp add: schema_set_def)

lemma updateById_found:
  assumes "stored_by_id w i = Some d" and "cast_category u = Inr cat" and "\<not> fault_at w 0"
  shows "BlogRepository_updateById w i u =
           (Some (normalize_blog (schema_set u cat (clock w) d)),
            w\<lparr>faults := tl (faults w),
              docs := update_first (\<lambda>x. post_id x = the (new_ObjectId i))
                        (schema_set u cat (clock w)) (docs w)\<rparr>)"
  using assms
  by (auto simp add: BlogRepository_updateById_def Blog_findByIdAndUpdate_set_def round_trip_eq
      stored_by_id_def split: option.splits)

lemma stored_after_update:
  assumes "stored_by_id w i = Some d" and "\<And>x. post_id (f x) = post_id x"
  shows "stored_by_id (w\<lparr>faults := fs, docs := update_first (\<lambda>x. post_id x = the (new_ObjectId i)) f (docs w)\<rparr>) i
           = Some (f d)"
  using assms by (auto simp add: stored_by_id_def find_doc_update_first split: option.splits)

lemma publish_set:
  "schema_set (no_updates\<lparr>upd_status := Some PUBLISHED, upd_publishedAt := Some (Some t),
                           upd_scheduledFor := Some (Some t)\<rparr>) None now d
     = d\<lparr>status := PUBLISHED, publishedAt := Some t, scheduledFor := Some t, updatedAt := now\<rparr>"
  by (simp add: schema_set_def no_updates_def)

lemma schedule_set:
  "schema_set (no_updates\<lparr>upd_scheduledFor := Some (Some t), upd_status := Some SCHEDULED\<rparr>) None now d
     = d\<lparr>status := SCHEDULED, scheduledFor := Some t, updatedAt := now\<rparr>"
  by (simp add: schema_set_def no_updates_def)

subsection \<open>Steps of the collection\<close>

lemma map_post_id_update_first:
  "(\<And>x. P x \<Longrightarrow> post_id (f x) = post_id x) \<Longrightarrow>
   map post_id (update_first P f ds) = map post_id ds"
  by (induction ds) simp_all

lemma set_update_first:
  "y \<in> set (update_first P f ds) \<Longrightarrow> y \<in> set ds \<or> (\<exists>x \<in> set ds. P x \<and> y = f x)"
  by (induction ds) (auto split: if_splits)

lemma set_remove_first: "y \<in> set (remove_first P ds) \<Longrightarrow> y \<in> set ds"
  by (induction ds) (auto split: if_splits)

lemma distinct_remove_first:
  "distinct (map g ds) \<Longrightarrow> distinct (map g (remove_first P ds))"
  by (induction ds) (auto dest: set_remove_first)

lemma find_doc_update_first_cases:
  "(\<And>x. P x \<Longrightarrow> post_id (f x) = post_id x) \<Longrightarrow> find_doc ds oid = Some d \<Longrightarrow>
   find_doc (update_first P f ds) oid = Some d' \<Longrightarrow> d' = d \<or> (P d \<and> d' = f d)"
  by (induction ds) (auto simp add: find_doc_def split: if_splits)

lemma find_doc_iff:
  "distinct (map post_id ds) \<Longrightarrow> find_doc ds oid = Some d \<longleftrightarrow> d \<in> set ds \<and> post_id d = oid"
  by (induction ds) (auto simp add: find_doc_def)

lemma find_doc_append:
  "find_doc ds oid = Some d \<Longrightarrow> find_doc (ds @ [x]) oid = Some d"
  by (induction ds) (auto simp add: find_doc_def)

lemma store_step_ids:
  "store_step ds ds' \<Longrightarrow> distinct (map post_id ds) \<Longrightarrow> distinct (map post_id ds')"
  by (induction rule: store_step.induct)
     (auto simp add: map_post_id_update_first distinct_remove_first)

lemma store_step_likes:
  "store_step ds ds' \<Longrightarrow> \<forall>d \<in> set ds. distinct (map user (likes d)) \<Longrightarrow>
   \<forall>d \<in> set ds'. distinct (map user (likes d))"
  by (induction rule: store_step.induct)
     (auto dest!: set_update_first set_remove_first)

lemma store_step_slug:
  assumes "store_step ds ds'" and "distinct (map post_id ds)"
    and "find_doc ds oid = Some d" and "find_doc ds' oid = Some d'"
  shows "slug d' = slug d"
  using assms
proof (induction rule: store_step.induct)
  case (same ds)
  then show ?case by simp
next
  case (updated P f ds)
  have "\<And>x. P x \<Longrightarrow> post_id (f x) = post_id x" using updated.hyps by blast
  from find_doc_update_first_cases [OF this updated.prems(2) updated.prems(3)]
  have "d' = d \<or> (P d \<and> d' = f d)" .
  then show ?case using updated.hyps by auto
next
  case (removed ds P)
  have "d' \<in> set ds \<and> post_id d' = oid"
    using removed.prems distinct_remove_first [OF removed.prems(1), of P]
    by (auto simp add: find_doc_iff dest: set_remove_first)
  moreover have "d \<in> set ds \<and> post_id d = oid"
    using removed.prems by (simp add: find_doc_iff)
  moreover have "inj_on post_id (set ds)"
    using removed.prems(1) by (simp add: distinct_map)
  ultimately have "d' = d" by (auto dest: inj_onD)
  then show ?case by simp
next
  case (inserted d0 ds)
  then show ?case by (simp add: find_doc_append)
qed

lemma step_set [simp]:
  "store_step ds (update_first (\<lambda>x. post_id x = oid) (schema_set u cat now) ds)"
  by (rule store_step.updated) simp

lemma step_inc [simp]:
  "store_step ds (update_first (\<lambda>x. post_id x = oid)
     (\<lambda>x. x\<lparr>viewCount := viewCount x + 1, updatedAt := now\<rparr>) ds)"
  by (rule store_step.updated) simp

lemma step_push [simp]:
  "store_step ds (update_first (\<lambda>x. post_id x = oid \<and> \<not> (\<exists>l \<in> set (likes x). user l = u))
     (\<lambda>x. x\<lparr>likes := likes x @ [\<lparr>user = u, likedAt = t\<rparr>], updatedAt := now\<rparr>) ds)"
  by (rule store_step.updated) auto

lemma step_pull [simp]:
  "store_step ds (update_first (\<lambda>x. post_id x = oid \<and> (\<exists>l \<in> set (likes x). user l = u))
     (\<lambda>x. x\<lparr>likes := filter (\<lambda>l. user l \<noteq> u) (likes x), updatedAt := now\<rparr>) ds)"
  by (rule store_step.updated) (simp add: distinct_map_filter)

lemma step_remove [simp]: "store_step ds (remove_first P ds)"
  by (rule store_step.removed)

lemma step_same [simp]: "store_step ds ds"
  by (rule store_step.same)

lemma likes_new_document [simp]: "likes (new_document oid now p) = []"
  by (simp add: new_document_def)

lemma step_updateById:
  "BlogRepository_updateById w i u = (r, w1) \<Longrightarrow> store_step (docs w) (docs w1)"
  by (auto simp add: BlogRepository_updateById_def Blog_findByIdAndUpdate_set_def round_trip_eq
      split: option.splits sum.splits if_splits)

lemma step_deleteById:
  "BlogRepository_deleteById w i = (r, w1) \<Longrightarrow> store_step (docs w) (docs w1)"
  by (auto simp add: BlogRepository_deleteById_def Blog_findByIdAndDelete_def round_trip_eq
      split: option.splits sum.splits if_splits)

lemma step_incrementViewCount:
  "BlogRepository_incrementViewCount w i = (r, w1) \<Longrightarrow> store_step (docs w) (docs w1)"
  by (auto simp add: BlogRepository_incrementViewCount_def Blog_findByIdAndUpdate_inc_def
      round_trip_eq simp del: One_nat_def split: option.splits sum.splits if_splits)

lemma docs_push:
  "Blog_updateOne_push w p u t = (r, w1) \<Longrightarrow> store_step (docs w) (docs w1)"
  by (auto simp add: Blog_updateOne_push_def round_trip_eq Let_def simp del: bex_simps
      split: if_splits)

lemma docs_pull:
  "Blog_updateOne_pull w p u = (r, w1) \<Longrightarrow> store_step (docs w) (docs w1)"
  by (auto simp add: Blog_updateOne_pull_def round_trip_eq Let_def simp del: bex_simps
      split: if_splits)

lemma step_addLike:
  "BlogRepository_addLike w p u = (r, w1) \<Longrightarrow> store_step (docs w) (docs w1)"
  by (auto simp add: BlogRepository_addLike_def
      split: option.splits sum.splits if_splits prod.splits dest: docs_push)

lemma step_removeLike:
  "BlogRepository_removeLike w p u = (r, w1) \<Longrightarrow> store_step (docs w) (docs w1)"
  by (auto simp add: BlogRepository_removeLike_def
      split: option.splits sum.splits if_splits prod.splits dest: docs_pull)

lemma docs_create:
  assumes "Blog_create w p = (r, w1)"
  shows "store_step (docs w) (docs w1)"
proof -
  let ?d = "new_document (id_supply w 0) (clock w) p"
  have "docs w1 = docs w \<or> (docs w1 = docs w @ [?d] \<and> post_id ?d \<notin> post_id ` set (docs w))"
    using assms
    by (auto simp add: Blog_create_def round_trip_eq Let_def split: if_splits)
  then show ?thesis
  proof
    assume "docs w1 = docs w"
    then show ?thesis by simp
  next
    assume "docs w1 = docs w @ [?d] \<and> post_id ?d \<notin> post_id ` set (docs w)"
    then show ?thesis by (simp add: store_step.inserted)
  qed
qed

lemma step_create:
  "BlogRepository_create w p = (r, w1) \<Longrightarrow> store_step (docs w) (docs w1)"
  by (auto simp add: BlogRepository_create_def
      split: sum.splits prod.splits dest: docs_create)

subsection \<open>List retrieval\<close>

lemma length_insert_sorted [simp]: "length (insert_sorted le x xs) = Suc (length xs)"
  by (induction xs) simp_all

lemma length_sort_docs [simp]: "length (sort_docs le xs) = length xs"
  by (induction xs) (simp_all add: sort_docs_def)

lemma findAll_try_eq:
  "findAll_try c w params =
     (if fault_at w 0 \<or> (query_page params - 1) * query_limit params < 0
      then (Inl StoreError, w\<lparr>faults := tl (tl (faults w))\<rparr>)
      else if fault_at w 1 then (Inl StoreError, w\<lparr>faults := tl (tl (faults w))\<rparr>)
      else (Inr \<lparr>data = map normalize_blog
                   (if query_limit params = 0
                    then drop (nat ((query_page params - 1) * query_limit params)) (selected c w params)
                    else take (nat \<bar>query_limit params\<bar>)
                           (drop (nat ((query_page params - 1) * query_limit params)) (selected c w params))),
                 pagination = \<lparr>pg_page = query_page params, pg_limit = query_limit params,
                   pg_total = int (length (selected c w params)),
                   pg_totalPages = Math_ceil_div (int (length (selected c w params))) (query_limit params)\<rparr>\<rparr>,
            w\<lparr>faults := tl (tl (faults w))\<rparr>))"
  by (simp add: findAll_try_def Blog_find_def Blog_countDocuments_def round_trip_eq Let_def
      selected_def query_page_def query_limit_def)

lemma findAll_docs: "BlogRepository_findAll c w params = (r, w1) \<Longrightarrow> docs w1 = docs w"
  by (auto simp add: BlogRepository_findAll_def findAll_try_eq split: if_splits)

lemma Math_ceil_div_pos:
  "0 < b \<Longrightarrow> Math_ceil_div (int n) b = Finite \<lceil>real n / real_of_int b\<rceil>"
  using ceiling_divide_eq_div [where ?'a = real, of "int n" b] by (simp add: Math_ceil_div_def)

subsection \<open>Every operation of the service is a step of the collection\<close>

lemma serve_step: "store_step (docs w) (docs (serve c w r))"
proof (cases r)
  case (Create post)
  then show ?thesis
    by (auto simp add: BlogService_create_def Let_def split: prod.splits option.splits
        dest: step_create)
next
  case (GetById i b)
  then show ?thesis
    by (auto simp add: BlogService_getById_def split: prod.splits option.splits
        dest: findById_docs)
next
  case (GetBySlug s b)
  then show ?thesis
    by (auto simp add: BlogService_getBySlug_def split: prod.splits option.splits
        dest: findBySlug_docs)
next
  case (GetAll q)
  then show ?thesis
    by (auto simp add: BlogService_getAll_def split: prod.splits dest: findAll_docs)
next
  case (Update i u)
  then show ?thesis
    by (auto simp add: BlogService_update_def split: prod.splits option.splits
        dest!: findById_docs step_updateById)
next
  case (Delete i)
  then show ?thesis
    by (auto simp add: BlogService_delete_def split: prod.splits dest: step_deleteById)
next
  case (IncrementViewCount i)
  then show ?thesis
    by (auto simp add: BlogService_incrementViewCount_def split: prod.splits
        dest: step_incrementViewCount)
next
  case (AddLike p u)
  then show ?thesis
    by (auto simp add: BlogService_addLike_def split: prod.splits option.splits
        dest!: findById_docs step_addLike)
next
  case (RemoveLike p u)
  then show ?thesis
    by (auto simp add: BlogService_removeLike_def split: prod.splits option.splits
        dest!: findById_docs step_removeLike)
next
  case (Schedule p t)
  then show ?thesis
    by (auto simp add: BlogService_schedule_def BlogRepository_schedule_def
        split: prod.splits option.splits dest!: findById_docs step_updateById)
next
  case (Publish p)
  then show ?thesis
    by (auto simp add: BlogService_publish_def BlogRepository_publish_def
        split: prod.splits option.splits dest!: findById_docs step_updateById)
next
  case (Archive p)
  then show ?thesis
    by (auto simp add: BlogService_archive_def BlogRepository_archive_def
        split: prod.splits option.splits dest!: findById_docs step_updateById)
qed

text \<open>So the uniqueness of identifiers, which the properties below assume of the store, is
  kept by every operation; it holds of the empty collection, as the uniqueness of likes
  does.\<close>

lemma ids_unique_serve: "ids_unique w \<Longrightarrow> ids_unique (serve c w r)"
  unfolding ids_unique_def by (rule store_step_ids [OF serve_step])

lemma invariants_initially: "docs w = [] \<Longrightarrow> ids_unique w \<and> likes_unique w"
  by (simp add: ids_unique_def likes_unique_def)

subsection \<open>The guarded push of a like\<close>

lemma guard_first:
  "find_doc ds oid = Some d \<Longrightarrow> Q d \<Longrightarrow>
   update_first (\<lambda>x. post_id x = oid \<and> Q x) f ds = update_first (\<lambda>x. post_id x = oid) f ds"
  by (induction ds) (auto simp add: find_doc_def split: if_splits)

lemma guard_stored:
  "distinct (map post_id ds) \<Longrightarrow> find_doc ds oid = Some d \<Longrightarrow>
   (\<exists>x \<in> set ds. post_id x = oid \<and> Q x) \<longleftrightarrow> Q d"
  by (auto simp add: find_doc_iff distinct_map dest: inj_onD)

lemma guard_absent:
  "find_doc ds oid = None \<Longrightarrow> (\<exists>x \<in> set ds. post_id x = oid \<and> Q x) \<longleftrightarrow> False"
  by (auto simp add: find_doc_def find_None_iff)

lemma addLike_eq:
  assumes "new_ObjectId postId = Some p" and "new_ObjectId userId = Some u"
  shows "BlogRepository_addLike w postId userId =
    (if fault_at w 0
     then (Some False, logger_error ''Error adding like to %s: %o'' (w\<lparr>faults := tl (faults w)\<rparr>))
     else if (\<exists>x \<in> set (docs w). post_id x = p \<and> \<not> (\<exists>l \<in> set (likes x). user l = u))
       then (Some True, w\<lparr>faults := tl (faults w),
               docs := update_first (\<lambda>x. post_id x = p \<and> \<not> (\<exists>l \<in> set (likes x). user l = u))
                 (\<lambda>x. x\<lparr>likes := likes x @ [\<lparr>user = u, likedAt = clock w\<rparr>], updatedAt := clock w\<rparr>)
                 (docs w)\<rparr>)
       else (None, w\<lparr>faults := tl (faults w)\<rparr>))"
  using assms
  by (simp add: BlogRepository_addLike_def Blog_updateOne_push_def round_trip_eq Let_def
      new_Date_def del: bex_simps)

lemma addLike_already:
  assumes "ids_unique w" and "stored_by_id w postId = Some d" and "new_ObjectId userId = Some u"
    and "u \<in> user ` set (likes d)"
  shows "BlogRepository_addLike w postId userId =
    (if fault_at w 0
     then (Some False, logger_error ''Error adding like to %s: %o'' (w\<lparr>faults := tl (faults w)\<rparr>))
     else (None, w\<lparr>faults := tl (faults w)\<rparr>))"
proof -
  obtain p where p: "new_ObjectId postId = Some p" and d: "find_doc (docs w) p = Some d"
    using assms(2) by (auto simp add: stored_by_id_def split: option.splits)
  have "\<not> (\<exists>x \<in> set (docs w). post_id x = p \<and> \<not> (\<exists>l \<in> set (likes x). user l = u))"
    using guard_stored [OF assms(1) [unfolded ids_unique_def] d,
        of "\<lambda>x. \<not> (\<exists>l \<in> set (likes x). user l = u)"] assms(4)
    by auto
  then show ?thesis
    unfolding addLike_eq [OF p assms(3)] by (simp del: bex_simps)
qed

lemma addLike_success:
  assumes "ids_unique w" and "BlogRepository_addLike w postId userId = (Some True, w1)"
  shows "\<exists>d u. stored_by_id w postId = Some d \<and> new_ObjectId userId = Some u
           \<and> u \<notin> user ` set (likes d)
           \<and> stored_by_id w1 postId
               = Some (d\<lparr>likes := likes d @ [\<lparr>user = u, likedAt = clock w\<rparr>], updatedAt := clock w\<rparr>)
           \<and> ids_unique w1"
proof -
  obtain p where p: "new_ObjectId postId = Some p"
    using assms(2) by (auto simp add: BlogRepository_addLike_def logger_error_def split: option.splits)
  obtain u where u: "new_ObjectId userId = Some u"
    using assms(2) p by (auto simp add: BlogRepository_addLike_def logger_error_def split: option.splits)
  let ?Q = "\<lambda>x. \<not> (\<exists>l \<in> set (likes x). user l = u)"
  let ?f = "\<lambda>x. x\<lparr>likes := likes x @ [\<lparr>user = u, likedAt = clock w\<rparr>], updatedAt := clock w\<rparr>"
  from assms(2) have m: "\<exists>x \<in> set (docs w). post_id x = p \<and> ?Q x"
    and w1: "w1 = w\<lparr>faults := tl (faults w),
               docs := update_first (\<lambda>x. post_id x = p \<and> ?Q x) ?f (docs w)\<rparr>"
    unfolding addLike_eq [OF p u] by (auto simp del: bex_simps split: if_splits)
  from m obtain d where d: "find_doc (docs w) p = Some d"
    by (cases "find_doc (docs w) p") (auto simp add: guard_absent simp del: bex_simps)
  have q: "?Q d"
    using guard_stored [OF assms(1) [unfolded ids_unique_def] d, of ?Q] m by blast
  have docs1: "docs w1 = update_first (\<lambda>x. post_id x = p) ?f (docs w)"
    unfolding w1 using guard_first [OF d, of ?Q ?f] q by simp
  have "find_doc (docs w1) p = Some (?f d)"
    unfolding docs1 using d by (simp add: find_doc_update_first)
  moreover have "ids_unique w1"
    using assms(1) unfolding ids_unique_def docs1 by (simp add: map_post_id_update_first)
  moreover have "u \<notin> user ` set (likes d)" using q by auto
  ultimately show ?thesis using p u d by (auto simp add: stored_by_id_def)
qed

section \<open>The claims\<close>

text \<open>
  Claim C1. At the service, each outcome of the repository for \<^verbatim>\<open>addLike\<close> and
  \<^verbatim>\<open>removeLike\<close> should map to its own kind of error: a store-level failure to
  \<^verbatim>\<open>InternalError\<close>, never to \<^verbatim>\<open>Conflict\<close>. The code tests \<^verbatim>\<open>!success\<close>, which holds of
  \<^verbatim>\<open>false\<close> (store-level failure) as of \<^verbatim>\<open>null\<close> (not applicable). On an existing post,
  when the round trip of the guarded update throws, or when the user identifier is not an
  \<^verbatim>\<open>ObjectId\<close>, the repository returns \<^verbatim>\<open>false\<close> and the service throws \<^verbatim>\<open>Conflict\<close>.
  \<^verbatim>\<open>incrementViewCount\<close>, which tells \<^verbatim>\<open>null\<close> from \<^verbatim>\<open>false\<close>, throws
  \<^verbatim>\<open>InternalError\<close> on the same failure.
\<close>

theorem C1_store_failure_surfaces_as_conflict:
  "fst (BlogRepository_addLike (sample_world [sample_post 1] [True]) (sample_id 1) (sample_id 7))
     = Some False
   \<and> fst (BlogService_addLike (sample_world [sample_post 1] [False, True]) (sample_id 1)
        (sample_id 7)) = Inl (ApiError ''Blog already liked'' 409 CONFLICT)
   \<and> fst (BlogService_addLike (sample_world [sample_post 1] []) (sample_id 1) ''not-an-object-id'')
       = Inl (ApiError ''Blog already liked'' 409 CONFLICT)
   \<and> fst (BlogRepository_removeLike (sample_world [liked_post] [True]) (sample_id 1) (sample_id 7))
       = Some False
   \<and> fst (BlogService_removeLike (sample_world [liked_post] [False, True]) (sample_id 1)
        (sample_id 7)) = Inl (ApiError ''Like not found'' 409 CONFLICT)
   \<and> fst (BlogService_incrementViewCount (sample_world [sample_post 1] [True]) (sample_id 1))
       = Inl (ApiError ''Failed to increment view count'' 500 INTERNAL_SERVER_ERROR)"
  by code_simp

text \<open>
  Claim C2, as stated, fails: \<^verbatim>\<open>publish\<close> of the repository also writes
  \<^verbatim>\<open>scheduledFor\<close>. A post scheduled for 9000 and published at 5000 is afterwards scheduled
  for 5000.
\<close>

theorem C2_publish_overwrites_scheduledFor:
  "map_option scheduledFor (stored_by_id (sample_world [scheduled_post] []) (sample_id 1))
     = Some (Some 9000)
   \<and> map_option scheduledFor
        (stored_by_id (snd (BlogRepository_publish (sample_world [scheduled_post] []) (sample_id 1)))
           (sample_id 1)) = Some (Some 5000)
   \<and> map_option scheduledFor
        (stored_by_id (snd (BlogRepository_publish (sample_world [scheduled_post] []) (sample_id 1)))
           (sample_id 1))
     \<noteq> map_option scheduledFor (stored_by_id (sample_world [scheduled_post] []) (sample_id 1))"
  by code_simp

text \<open>
  Claim C2, amended. For every existing post, when the round trip does not fail,
  \<^verbatim>\<open>publish(postId)\<close> of the repository sets \<^verbatim>\<open>status\<close> to published and both
  \<^verbatim>\<open>publishedAt\<close> and \<^verbatim>\<open>scheduledFor\<close> to the current time, the store writes \<^verbatim>\<open>updatedAt\<close>,
  and every other field of the post (title, content, slug, likes, viewCount and the rest)
  is unchanged. The entity returned is the post so updated.
\<close>

theorem C2_publish_effect:
  assumes "stored_by_id w postId = Some d" and "\<not> fault_at w 0"
  shows "stored_by_id (snd (BlogRepository_publish w postId)) postId
           = Some (d\<lparr>status := PUBLISHED, publishedAt := Some (clock w),
                     scheduledFor := Some (clock w), updatedAt := clock w\<rparr>)
         \<and> fst (BlogRepository_publish w postId)
           = Some (normalize_blog (d\<lparr>status := PUBLISHED, publishedAt := Some (clock w),
                     scheduledFor := Some (clock w), updatedAt := clock w\<rparr>))"
proof -
  let ?u = "no_updates\<lparr>upd_status := Some PUBLISHED, upd_publishedAt := Some (Some (clock w)),
                        upd_scheduledFor := Some (Some (clock w))\<rparr>"
  have cat: "cast_category ?u = Inr None"
    by (simp add: cast_category_def no_updates_def)
  have eq: "BlogRepository_publish w postId = BlogRepository_updateById w postId ?u"
    by (simp add: BlogRepository_publish_def new_Date_def)
  show ?thesis
    unfolding eq updateById_found [OF assms(1) cat assms(2)]
    using stored_after_update [OF assms(1), of "schema_set ?u None (clock w)"]
    by (simp add: publish_set)
qed

text \<open>The amended claim C2 on the scheduled post.\<close>

theorem C2_publish_effect_witness:
  "stored_by_id (sample_world [scheduled_post] []) (sample_id 1) = Some scheduled_post
   \<and> \<not> fault_at (sample_world [scheduled_post] []) 0
   \<and> stored_by_id (snd (BlogRepository_publish (sample_world [scheduled_post] []) (sample_id 1)))
        (sample_id 1)
      = Some (scheduled_post\<lparr>status := PUBLISHED, publishedAt := Some 5000,
                scheduledFor := Some 5000, updatedAt := 5000\<rparr>)"
proof -
  have h1: "stored_by_id (sample_world [scheduled_post] []) (sample_id 1) = Some scheduled_post"
    by code_simp
  have h2: "\<not> fault_at (sample_world [scheduled_post] []) 0"
    by code_simp
  show ?thesis
    using C2_publish_effect [OF h1 h2] h1 h2
    by (simp add: sample_world_def)
qed

text \<open>
  Claim C3. For every existing post and every update payload, also one with a \<^verbatim>\<open>slug\<close>
  key, \<^verbatim>\<open>updateById\<close> leaves the slug of the post unchanged: the update applies (the entity
  is returned and the store holds the updated post) and the slug is the old one. No call of
  \<^verbatim>\<open>updateById\<close> and no operation of the service changes the slug of a post that is in the
  store before and after it.
\<close>

theorem C3_slug_never_changes:
  "(stored_by_id w i = Some d \<and> cast_category u = Inr cat \<and> \<not> fault_at w 0 \<longrightarrow>
      stored_by_id (snd (BlogRepository_updateById w i u)) i = Some (schema_set u cat (clock w) d)
      \<and> map_option slug (fst (BlogRepository_updateById w i u)) = Some (slug d)
      \<and> slug (schema_set u cat (clock w) d) = slug d)
   \<and> (ids_unique w \<and> find_doc (docs w) oid = Some d
        \<and> find_doc (docs (snd (BlogRepository_updateById w i u))) oid = Some d' \<longrightarrow> slug d' = slug d)
   \<and> (ids_unique w \<and> find_doc (docs w) oid = Some d
        \<and> find_doc (docs (serve c w r)) oid = Some d' \<longrightarrow> slug d' = slug d)"
proof (intro conjI impI)
  assume a: "stored_by_id w i = Some d \<and> cast_category u = Inr cat \<and> \<not> fault_at w 0"
  then have st: "stored_by_id w i = Some d" and cat: "cast_category u = Inr cat"
    and nf: "\<not> fault_at w 0" by simp_all
  show "stored_by_id (snd (BlogRepository_updateById w i u)) i = Some (schema_set u cat (clock w) d)"
    unfolding updateById_found [OF st cat nf]
    using stored_after_update [OF st, of "schema_set u cat (clock w)"] by simp
  show "map_option slug (fst (BlogRepository_updateById w i u)) = Some (slug d)"
    unfolding updateById_found [OF st cat nf] by (simp add: normalize_blog_def)
  show "slug (schema_set u cat (clock w) d) = slug d" by simp
next
  assume a: "ids_unique w \<and> find_doc (docs w) oid = Some d
        \<and> find_doc (docs (snd (BlogRepository_updateById w i u))) oid = Some d'"
  have "store_step (docs w) (docs (snd (BlogRepository_updateById w i u)))"
    by (rule step_updateById [of w i u "fst (BlogRepository_updateById w i u)"]) simp
  then show "slug d' = slug d"
    using a by (auto simp add: ids_unique_def intro: store_step_slug)
next
  assume a: "ids_unique w \<and> find_doc (docs w) oid = Some d
        \<and> find_doc (docs (serve c w r)) oid = Some d'"
  then show "slug d' = slug d"
    using serve_step [of w c r] by (auto simp add: ids_unique_def intro: store_step_slug)
qed

text \<open>Claim C3 on an update that carries a slug and a title.\<close>

theorem C3_slug_never_changes_witness:
  "upd_slug payload_with_slug = Some ''another-slug''
   \<and> map_option slug (fst (BlogRepository_updateById (sample_world [sample_post 1] [])
        (sample_id 1) payload_with_slug)) = Some (slug (sample_post 1))
   \<and> slug (the (find_doc (docs (serve sample_collaborators (sample_world [sample_post 1] [])
        (Update (sample_id 1) payload_with_slug))) (OID (sample_id 1)))) = slug (sample_post 1)"
proof -
  let ?w = "sample_world [sample_post 1] []"
  let ?d' = "the (find_doc (docs (serve sample_collaborators ?w (Update (sample_id 1) payload_with_slug)))
               (OID (sample_id 1)))"
  have h1: "stored_by_id ?w (sample_id 1) = Some (sample_post 1)" by code_simp
  have h2: "cast_category payload_with_slug = Inr None" by code_simp
  have h3: "\<not> fault_at ?w 0" by code_simp
  have h4: "ids_unique ?w" by code_simp
  have h5: "find_doc (docs ?w) (OID (sample_id 1)) = Some (sample_post 1)" by code_simp
  have h6: "find_doc (docs (serve sample_collaborators ?w (Update (sample_id 1) payload_with_slug)))
              (OID (sample_id 1)) = Some ?d'" by code_simp
  have h7: "upd_slug payload_with_slug = Some ''another-slug''" by code_simp
  show ?thesis
    using C3_slug_never_changes [of ?w "sample_id 1" "sample_post 1" payload_with_slug None
        "OID (sample_id 1)" ?d' sample_collaborators "Update (sample_id 1) payload_with_slug"]
      h1 h2 h3 h4 h5 h6 h7
    by simp
qed

text \<open>
  Claim C4. Every operation of the service keeps the likes of every post free of a second
  like of one user. \<^verbatim>\<open>addLike\<close> of the repository on a post that holds a like of the user
  reports \<^verbatim>\<open>null\<close> (not applicable) and leaves the store as it is. After an \<^verbatim>\<open>addLike\<close> of
  the service that succeeded, a second one by the same user, with no change of the
  collection in between and a lookup that does not fail, throws \<^verbatim>\<open>Conflict\<close> and leaves the
  collection, so the likes, unchanged.
\<close>

theorem C4_one_like_per_user:
  "(likes_unique w \<longrightarrow> likes_unique (serve c w r))
   \<and> (ids_unique w \<and> stored_by_id w postId = Some d \<and> new_ObjectId userId = Some u
        \<and> u \<in> user ` set (likes d) \<and> \<not> fault_at w 0 \<longrightarrow>
      BlogRepository_addLike w postId userId = (None, w\<lparr>faults := tl (faults w)\<rparr>))
   \<and> (ids_unique w \<and> BlogService_addLike w postId userId = (Inr True, w1)
        \<and> docs w2 = docs w1 \<and> \<not> fault_at w2 0 \<longrightarrow>
      fst (BlogService_addLike w2 postId userId) = Inl (ApiError ''Blog already liked'' 409 CONFLICT)
      \<and> docs (snd (BlogService_addLike w2 postId userId)) = docs w2)"
proof (intro conjI impI)
  assume "likes_unique w"
  then show "likes_unique (serve c w r)"
    unfolding likes_unique_def by (rule store_step_likes [OF serve_step])
next
  assume "ids_unique w \<and> stored_by_id w postId = Some d \<and> new_ObjectId userId = Some u
        \<and> u \<in> user ` set (likes d) \<and> \<not> fault_at w 0"
  then show "BlogRepository_addLike w postId userId = (None, w\<lparr>faults := tl (faults w)\<rparr>)"
    by (simp add: addLike_already)
next
  assume a: "ids_unique w \<and> BlogService_addLike w postId userId = (Inr True, w1)
        \<and> docs w2 = docs w1 \<and> \<not> fault_at w2 0"
  then obtain e w0 where look: "BlogRepository_findById w postId = (Some e, w0)"
    and add: "BlogRepository_addLike w0 postId userId = (Some True, w1)"
    by (auto simp add: BlogService_addLike_def falsy_def split: prod.splits option.splits if_splits)
  have "ids_unique w0"
    using a findById_docs [OF look] by (simp add: ids_unique_def)
  from addLike_success [OF this add] obtain d0 u0 where
    u0: "new_ObjectId userId = Some u0"
    and st1: "stored_by_id w1 postId
               = Some (d0\<lparr>likes := likes d0 @ [\<lparr>user = u0, likedAt = clock w0\<rparr>], updatedAt := clock w0\<rparr>)"
    and uq1: "ids_unique w1" by blast
  let ?d1 = "d0\<lparr>likes := likes d0 @ [\<lparr>user = u0, likedAt = clock w0\<rparr>], updatedAt := clock w0\<rparr>"
  let ?w3 = "w2\<lparr>faults := tl (faults w2)\<rparr>"
  have st2: "stored_by_id w2 postId = Some ?d1"
    using st1 a stored_by_id_docs [of w2 w1 postId] by simp
  have look2: "BlogRepository_findById w2 postId = (Some (normalize_blog ?d1), ?w3)"
    using a st2 by (auto simp add: findById_eq dest: stored_valid)
  have uq3: "ids_unique ?w3" using uq1 a by (simp add: ids_unique_def)
  have st3: "stored_by_id ?w3 postId = Some ?d1" using st2 by simp
  have liked: "u0 \<in> user ` set (likes ?d1)" by simp
  note add3 = addLike_already [OF uq3 st3 u0 liked]
  show "fst (BlogService_addLike w2 postId userId) = Inl (ApiError ''Blog already liked'' 409 CONFLICT)"
    by (simp add: BlogService_addLike_def look2 add3 falsy_def)
  show "docs (snd (BlogService_addLike w2 postId userId)) = docs w2"
    by (simp add: BlogService_addLike_def look2 add3 falsy_def)
qed

text \<open>Claim C4 on a post that user 7 likes, and on two calls in a row.\<close>

theorem C4_one_like_per_user_witness:
  "likes_unique (serve sample_collaborators (sample_world [liked_post] [])
      (AddLike (sample_id 1) (sample_id 7)))
   \<and> fst (BlogRepository_addLike (sample_world [liked_post] []) (sample_id 1) (sample_id 7)) = None
   \<and> fst (BlogService_addLike (sample_world [sample_post 1] []) (sample_id 1) (sample_id 7)) = Inr True
   \<and> fst (BlogService_addLike
        (snd (BlogService_addLike (sample_world [sample_post 1] []) (sample_id 1) (sample_id 7)))
        (sample_id 1) (sample_id 7)) = Inl (ApiError ''Blog already liked'' 409 CONFLICT)"
proof -
  let ?w = "sample_world [liked_post] []"
  let ?v = "sample_world [sample_post 1] []"
  let ?v1 = "snd (BlogService_addLike ?v (sample_id 1) (sample_id 7))"
  have h1: "likes_unique ?w" by code_simp
  have h2: "ids_unique ?w" by code_simp
  have h3: "stored_by_id ?w (sample_id 1) = Some liked_post" by code_simp
  have h4: "new_ObjectId (sample_id 7) = Some (OID (sample_id 7))" by code_simp
  have h5: "OID (sample_id 7) \<in> user ` set (likes liked_post)" by code_simp
  have h6: "\<not> fault_at ?w 0" by code_simp
  have h7: "ids_unique ?v" by code_simp
  have h8: "fst (BlogService_addLike ?v (sample_id 1) (sample_id 7)) = Inr True" by code_simp
  then have h9: "BlogService_addLike ?v (sample_id 1) (sample_id 7) = (Inr True, ?v1)"
    by (simp add: prod_eq_iff)
  have h10: "\<not> fault_at ?v1 0" by code_simp
  have a: "likes_unique (serve sample_collaborators ?w (AddLike (sample_id 1) (sample_id 7)))
   \<and> BlogRepository_addLike ?w (sample_id 1) (sample_id 7) = (None, ?w\<lparr>faults := tl (faults ?w)\<rparr>)"
    using C4_one_like_per_user [of ?w sample_collaborators "AddLike (sample_id 1) (sample_id 7)"
        "sample_id 1" liked_post "sample_id 7" "OID (sample_id 7)" ?v1 ?v1]
      h1 h2 h3 h4 h5 h6
    by simp
  have b: "fst (BlogService_addLike ?v1 (sample_id 1) (sample_id 7))
             = Inl (ApiError ''Blog already liked'' 409 CONFLICT)"
    using C4_one_like_per_user [of ?v sample_collaborators "AddLike (sample_id 1) (sample_id 7)"
        "sample_id 1" liked_post "sample_id 7" "OID (sample_id 7)" ?v1 ?v1]
      h7 h9 h10
    by simp
  show ?thesis using a b h8 by simp
qed

text \<open>
  Claim C5. For every existing post whose status is published, when the lookup does not
  fail, \<^verbatim>\<open>publish(postId)\<close> of the service throws \<^verbatim>\<open>Conflict\<close>; the only effect is the round
  trip of the lookup, so the collection and the post, with its \<^verbatim>\<open>publishedAt\<close>, are
  unchanged.
\<close>

theorem C5_publish_published_conflict:
  assumes "stored_by_id w postId = Some d" and "status d = PUBLISHED" and "\<not> fault_at w 0"
  shows "BlogService_publish w postId =
           (Inl (ApiError ''Blog post already published'' 409 CONFLICT), w\<lparr>faults := tl (faults w)\<rparr>)
         \<and> docs (snd (BlogService_publish w postId)) = docs w
         \<and> stored_by_id (snd (BlogService_publish w postId)) postId = Some d"
proof -
  have res: "BlogService_publish w postId =
           (Inl (ApiError ''Blog post already published'' 409 CONFLICT), w\<lparr>faults := tl (faults w)\<rparr>)"
    using assms by (auto simp add: BlogService_publish_def findById_eq dest: stored_valid)
  show ?thesis using assms(1) by (simp add: res)
qed

text \<open>Claim C5 on a post published at 3000.\<close>

theorem C5_publish_published_conflict_witness:
  "stored_by_id (sample_world [published_post] []) (sample_id 1) = Some published_post
   \<and> status published_post = PUBLISHED
   \<and> fst (BlogService_publish (sample_world [published_post] []) (sample_id 1))
       = Inl (ApiError ''Blog post already published'' 409 CONFLICT)
   \<and> map_option publishedAt
       (stored_by_id (snd (BlogService_publish (sample_world [published_post] []) (sample_id 1)))
          (sample_id 1)) = Some (Some 3000)"
proof -
  let ?w = "sample_world [published_post] []"
  have h1: "stored_by_id ?w (sample_id 1) = Some published_post" by code_simp
  have h2: "status published_post = PUBLISHED" by code_simp
  have h3: "\<not> fault_at ?w 0" by code_simp
  have h4: "publishedAt published_post = Some 3000" by code_simp
  show ?thesis
    using C5_publish_published_conflict [OF h1 h2 h3] h1 h2 h4 by simp
qed

text \<open>
  Claim C6. For every identifier and every date not after the current time,
  \<^verbatim>\<open>schedule\<close> of the service throws \<^verbatim>\<open>BadRequest\<close> and leaves the world as it is: no round
  trip to the store is made. For every existing post and every later date, when the two
  round trips do not fail, it returns the post with \<^verbatim>\<open>status\<close> scheduled and \<^verbatim>\<open>scheduledFor\<close>
  the date, and the store holds that post.
\<close>

theorem C6_schedule_validation:
  "(publishDate \<le> clock w \<longrightarrow>
      BlogService_schedule w postId publishDate
        = (Inl (ApiError ''Publish date must be in the future'' 400 BAD_REQUEST), w))
   \<and> (clock w < publishDate \<and> stored_by_id w postId = Some d \<and> \<not> fault_at w 0 \<and> \<not> fault_at w 1 \<longrightarrow>
      fst (BlogService_schedule w postId publishDate)
        = Inr (normalize_blog (d\<lparr>status := SCHEDULED, scheduledFor := Some publishDate, updatedAt := clock w\<rparr>))
      \<and> stored_by_id (snd (BlogService_schedule w postId publishDate)) postId
        = Some (d\<lparr>status := SCHEDULED, scheduledFor := Some publishDate, updatedAt := clock w\<rparr>))"
proof (intro conjI impI)
  assume "publishDate \<le> clock w"
  then show "BlogService_schedule w postId publishDate
        = (Inl (ApiError ''Publish date must be in the future'' 400 BAD_REQUEST), w)"
    by (simp add: BlogService_schedule_def new_Date_def)
next
  assume a: "clock w < publishDate \<and> stored_by_id w postId = Some d \<and> \<not> fault_at w 0 \<and> \<not> fault_at w 1"
  let ?u = "no_updates\<lparr>upd_scheduledFor := Some (Some publishDate), upd_status := Some SCHEDULED\<rparr>"
  let ?w1 = "w\<lparr>faults := tl (faults w)\<rparr>"
  have cat: "cast_category ?u = Inr None"
    by (simp add: cast_category_def no_updates_def)
  have st: "stored_by_id ?w1 postId = Some d" using a by simp
  have nf: "\<not> fault_at ?w1 0" using a by simp
  have look: "BlogRepository_findById w postId = (Some (normalize_blog d), ?w1)"
    using a by (auto simp add: findById_eq dest: stored_valid)
  have upd: "BlogRepository_schedule ?w1 postId publishDate =
     (Some (normalize_blog (schema_set ?u None (clock w) d)),
      ?w1\<lparr>faults := tl (faults ?w1), docs := update_first (\<lambda>x. post_id x = the (new_ObjectId postId))
                        (schema_set ?u None (clock w)) (docs w)\<rparr>)"
    unfolding BlogRepository_schedule_def using updateById_found [OF st cat nf] by simp
  have res: "BlogService_schedule w postId publishDate =
     (Inr (normalize_blog (schema_set ?u None (clock w) d)),
      ?w1\<lparr>faults := tl (faults ?w1), docs := update_first (\<lambda>x. post_id x = the (new_ObjectId postId))
                        (schema_set ?u None (clock w)) (docs w)\<rparr>)"
    using a by (simp add: BlogService_schedule_def new_Date_def look upd)
  show "fst (BlogService_schedule w postId publishDate)
        = Inr (normalize_blog (d\<lparr>status := SCHEDULED, scheduledFor := Some publishDate, updatedAt := clock w\<rparr>))"
    by (simp add: res schedule_set)
  show "stored_by_id (snd (BlogService_schedule w postId publishDate)) postId
        = Some (d\<lparr>status := SCHEDULED, scheduledFor := Some publishDate, updatedAt := clock w\<rparr>)"
    using stored_after_update [OF st, of "schema_set ?u None (clock w)"]
    by (simp add: res schedule_set)
qed

text \<open>Claim C6 at the dates 4000 and 9000, the clock at 5000.\<close>

theorem C6_schedule_validation_witness:
  "fst (BlogService_schedule (sample_world [sample_post 1] []) (sample_id 1) 4000)
     = Inl (ApiError ''Publish date must be in the future'' 400 BAD_REQUEST)
   \<and> faults (snd (BlogService_schedule (sample_world [sample_post 1] [True]) (sample_id 1) 4000))
       = [True]
   \<and> stored_by_id (snd (BlogService_schedule (sample_world [sample_post 1] []) (sample_id 1) 9000))
        (sample_id 1)
     = Some ((sample_post 1)\<lparr>status := SCHEDULED, scheduledFor := Some 9000, updatedAt := 5000\<rparr>)"
proof -
  let ?w = "sample_world [sample_post 1] []"
  let ?wf = "sample_world [sample_post 1] [True]"
  have h1: "stored_by_id ?w (sample_id 1) = Some (sample_post 1)" by code_simp
  have h2: "\<not> fault_at ?w 0" "\<not> fault_at ?w 1" by code_simp+
  have c: "clock ?w = 5000" "clock ?wf = 5000" "faults ?wf = [True]"
    by (simp_all add: sample_world_def)
  show ?thesis
    using C6_schedule_validation [of 4000 ?w "sample_id 1" "sample_post 1"]
      C6_schedule_validation [of 4000 ?wf "sample_id 1" "sample_post 1"]
      C6_schedule_validation [of 9000 ?w "sample_id 1" "sample_post 1"] h1 h2 c
    by simp
qed



text \<open>
  Claim C8. \<^verbatim>\<open>findAll\<close> of the repository returns a page for every query: whatever its
  \<^verbatim>\<open>try\<close> block throws is caught. On a store-level failure of either round trip the page
  has no data, \<^verbatim>\<open>total\<close> 0 and \<^verbatim>\<open>totalPages\<close> 0, the collection is unchanged and one line
  is logged.
\<close>

theorem C8_findAll_never_raises:
  "(\<forall>error w1. findAll_try c w params = (Inl error, w1) \<longrightarrow>
      BlogRepository_findAll c w params
        = (empty_page, logger_error ''Error fetching blogs: %o'' w1))
   \<and> (fault_at w 0 \<or> fault_at w 1 \<longrightarrow>
      fst (BlogRepository_findAll c w params)
        = \<lparr>data = [], pagination = \<lparr>pg_page = 1, pg_limit = 10, pg_total = 0,
                                      pg_totalPages = Finite 0\<rparr>\<rparr>
      \<and> docs (snd (BlogRepository_findAll c w params)) = docs w
      \<and> logged (snd (BlogRepository_findAll c w params)) = logged w @ [''Error fetching blogs: %o''])"
  by (auto simp add: BlogRepository_findAll_def findAll_try_eq empty_page_def logger_error_def)

text \<open>Claim C8 on a store whose next round trip fails.\<close>

theorem C8_findAll_never_raises_witness:
  "fault_at (sample_world [sample_post 1] [True]) 0
   \<and> fst (BlogRepository_findAll sample_collaborators (sample_world [sample_post 1] [True])
        (sample_query 1 10))
      = \<lparr>data = [], pagination = \<lparr>pg_page = 1, pg_limit = 10, pg_total = 0,
                                    pg_totalPages = Finite 0\<rparr>\<rparr>
   \<and> logged (snd (BlogRepository_findAll sample_collaborators (sample_world [sample_post 1] [True])
        (sample_query 1 10))) = [''Error fetching blogs: %o'']"
proof -
  let ?w = "sample_world [sample_post 1] [True]"
  have h1: "fault_at ?w 0" by code_simp
  have h2: "logged ?w = []" by (simp add: sample_world_def)
  show ?thesis
    using C8_findAll_never_raises [of sample_collaborators ?w "sample_query 1 10"] h1 h2
    by simp
qed

text \<open>
  Claim C9, as stated for every query, fails: \<^verbatim>\<open>findAll\<close> checks neither \<^verbatim>\<open>page\<close> nor
  \<^verbatim>\<open>limit\<close>. On a store of three posts, page 1 with limit -2 returns two items, more than
  the limit, with \<^verbatim>\<open>totalPages\<close> -1; page -1 with limit 10 makes the skip negative, which the
  store rejects, so the empty page with \<^verbatim>\<open>total\<close> 0 is returned while three posts match.
\<close>

theorem C9_query_outside_contract:
  "length (selected sample_collaborators (sample_world (map sample_post [0..<3]) [])
      (sample_query 1 (- 2))) = 3
   \<and> length (data (fst (BlogRepository_findAll sample_collaborators
        (sample_world (map sample_post [0..<3]) []) (sample_query 1 (- 2))))) = 2
   \<and> \<not> int (length (data (fst (BlogRepository_findAll sample_collaborators
        (sample_world (map sample_post [0..<3]) []) (sample_query 1 (- 2)))))) \<le> - 2
   \<and> pg_totalPages (pagination (fst (BlogRepository_findAll sample_collaborators
        (sample_world (map sample_post [0..<3]) []) (sample_query 1 (- 2))))) = Finite (- 1)
   \<and> length (selected sample_collaborators (sample_world (map sample_post [0..<3]) [])
      (sample_query (- 1) 10)) = 3
   \<and> fst (BlogRepository_findAll sample_collaborators
        (sample_world (map sample_post [0..<3]) []) (sample_query (- 1) 10)) = empty_page
   \<and> pg_total (pagination (fst (BlogRepository_findAll sample_collaborators
        (sample_world (map sample_post [0..<3]) []) (sample_query (- 1) 10)))) = 0
   \<and> pg_total (pagination (fst (BlogRepository_findAll sample_collaborators
        (sample_world (map sample_post [0..<3]) []) (sample_query (- 1) 10))))
      \<noteq> int (length (selected sample_collaborators (sample_world (map sample_post [0..<3]) [])
          (sample_query (- 1) 10)))"
  by code_simp

text \<open>
  Claim C9, amended. For every query whose \<^verbatim>\<open>page\<close> and \<^verbatim>\<open>limit\<close> are whole numbers with
  \<^verbatim>\<open>page\<close> at least 1 and \<^verbatim>\<open>limit\<close> at least 1, when the store does not fail, \<^verbatim>\<open>findAll\<close>
  skips \<^verbatim>\<open>(page - 1) * limit\<close> of the matching documents and returns at most \<^verbatim>\<open>limit\<close> of
  them, \<^verbatim>\<open>total\<close> is the number of matching documents and \<^verbatim>\<open>totalPages\<close> is the ceiling of
  \<^verbatim>\<open>total / limit\<close>. With 23 matching documents and limit 10, \<^verbatim>\<open>totalPages\<close> is 3, page 3
  has 3 items, and page 4 has none while \<^verbatim>\<open>total\<close> is 23.
\<close>

theorem C9_findAll_pagination:
  assumes "\<not> fault_at w 0" and "\<not> fault_at w 1"
    and "1 \<le> query_page params" and "1 \<le> query_limit params"
  shows "data (fst (BlogRepository_findAll c w params))
           = map normalize_blog (take (nat (query_limit params))
               (drop (nat ((query_page params - 1) * query_limit params)) (selected c w params)))
       \<and> pg_total (pagination (fst (BlogRepository_findAll c w params)))
           = int (length (selected c w params))
       \<and> pg_totalPages (pagination (fst (BlogRepository_findAll c w params)))
           = Finite \<lceil>real (length (selected c w params)) / real_of_int (query_limit params)\<rceil>
       \<and> (length (selected c w params) = 23 \<and> query_limit params = 10 \<longrightarrow>
            pg_totalPages (pagination (fst (BlogRepository_findAll c w params))) = Finite 3
            \<and> (query_page params = 3 \<longrightarrow>
                 length (data (fst (BlogRepository_findAll c w params))) = 3)
            \<and> (query_page params = 4 \<longrightarrow>
                 data (fst (BlogRepository_findAll c w params)) = []
                 \<and> pg_total (pagination (fst (BlogRepository_findAll c w params))) = 23))"
proof -
  have skip: "\<not> (query_page params - 1) * query_limit params < 0"
    using assms(3,4) by (simp add: not_less)
  have lim: "query_limit params \<noteq> 0" "\<bar>query_limit params\<bar> = query_limit params"
    "0 < query_limit params"
    using assms(4) by simp_all
  have res: "fst (BlogRepository_findAll c w params) =
      \<lparr>data = map normalize_blog (take (nat (query_limit params))
                (drop (nat ((query_page params - 1) * query_limit params)) (selected c w params))),
        pagination = \<lparr>pg_page = query_page params, pg_limit = query_limit params,
          pg_total = int (length (selected c w params)),
          pg_totalPages = Math_ceil_div (int (length (selected c w params))) (query_limit params)\<rparr>\<rparr>"
    using assms(1,2) skip lim(1,2) by (simp add: BlogRepository_findAll_def findAll_try_eq)
  have c1: "pg_totalPages (pagination (fst (BlogRepository_findAll c w params)))
           = Finite \<lceil>real (length (selected c w params)) / real_of_int (query_limit params)\<rceil>"
    unfolding res using lim(3) by (simp add: Math_ceil_div_pos)
  have c2: "length (selected c w params) = 23 \<and> query_limit params = 10 \<longrightarrow>
            pg_totalPages (pagination (fst (BlogRepository_findAll c w params))) = Finite 3
            \<and> (query_page params = 3 \<longrightarrow>
                 length (data (fst (BlogRepository_findAll c w params))) = 3)
            \<and> (query_page params = 4 \<longrightarrow>
                 data (fst (BlogRepository_findAll c w params)) = []
                 \<and> pg_total (pagination (fst (BlogRepository_findAll c w params))) = 23)"
    unfolding res by (simp add: Math_ceil_div_def)
  show ?thesis
    using c1 c2 unfolding res by simp
qed

text \<open>The amended claim C9 on a store of 23 posts.\<close>

theorem C9_findAll_pagination_witness:
  "length (selected sample_collaborators (sample_world (map sample_post [0..<23]) [])
      (sample_query 3 10)) = 23
   \<and> pg_totalPages (pagination (fst (BlogRepository_findAll sample_collaborators
        (sample_world (map sample_post [0..<23]) []) (sample_query 3 10)))) = Finite 3
   \<and> length (data (fst (BlogRepository_findAll sample_collaborators
        (sample_world (map sample_post [0..<23]) []) (sample_query 3 10)))) = 3
   \<and> data (fst (BlogRepository_findAll sample_collaborators
        (sample_world (map sample_post [0..<23]) []) (sample_query 4 10))) = []
   \<and> pg_total (pagination (fst (BlogRepository_findAll sample_collaborators
        (sample_world (map sample_post [0..<23]) []) (sample_query 4 10)))) = 23"
proof -
  let ?w = "sample_world (map sample_post [0..<23]) []"
  have f: "\<not> fault_at ?w 0" "\<not> fault_at ?w 1"
    by (simp_all add: fault_at_def sample_world_def)
  have q: "query_page (sample_query 3 10) = 3" "query_limit (sample_query 3 10) = 10"
    "query_page (sample_query 4 10) = 4" "query_limit (sample_query 4 10) = 10"
    by (simp_all add: query_page_def query_limit_def sample_query_def)
  have n: "length (selected sample_collaborators ?w (sample_query 3 10)) = 23"
    "length (selected sample_collaborators ?w (sample_query 4 10)) = 23"
    by (simp_all add: selected_def sample_query_def matches_def sample_world_def trim_def)
  show ?thesis
    using C9_findAll_pagination [of ?w "sample_query 3 10" sample_collaborators]
      C9_findAll_pagination [of ?w "sample_query 4 10" sample_collaborators] f q n
    by simp
qed

text \<open>
  Claim C10. \<^verbatim>\<open>getAll\<close> of the service never throws: it returns the page of \<^verbatim>\<open>findAll\<close>,
  whose \<^verbatim>\<open>data\<close> is always an array, so the branch for no posts found is not reached. On an
  empty collection the page has no items, and after a store error it is the empty page.
\<close>

theorem C10_getAll_never_not_found:
  "fst (BlogService_getAll c w query) = Inr (fst (BlogRepository_findAll c w query))
   \<and> (docs w = [] \<longrightarrow> (\<exists>page. fst (BlogService_getAll c w query) = Inr page \<and> data page = []))
   \<and> (fault_at w 0 \<or> fault_at w 1 \<longrightarrow> fst (BlogService_getAll c w query) = Inr empty_page)"
proof -
  have r: "fst (BlogService_getAll c w query) = Inr (fst (BlogRepository_findAll c w query))"
    by (simp add: BlogService_getAll_def data_missing_def split: prod.splits)
  have "docs w = [] \<Longrightarrow> selected c w query = []"
    by (simp add: selected_def sort_docs_def Let_def)
  then have e: "docs w = [] \<Longrightarrow> data (fst (BlogRepository_findAll c w query)) = []"
    by (simp add: BlogRepository_findAll_def findAll_try_eq empty_page_def)
  have f: "fault_at w 0 \<or> fault_at w 1 \<Longrightarrow> fst (BlogRepository_findAll c w query) = empty_page"
    by (auto simp add: BlogRepository_findAll_def findAll_try_eq)
  show ?thesis using r e f by simp
qed

text \<open>Claim C10 on an empty collection and on a failing store.\<close>

theorem C10_getAll_never_not_found_witness:
  "docs (sample_world [] []) = []
   \<and> (\<exists>page. fst (BlogService_getAll sample_collaborators (sample_world [] []) (sample_query 1 10))
         = Inr page \<and> data page = [])
   \<and> fault_at (sample_world [sample_post 1] [False, True]) 1
   \<and> fst (BlogService_getAll sample_collaborators (sample_world [sample_post 1] [False, True])
        (sample_query 1 10)) = Inr empty_page"
proof -
  have h1: "docs (sample_world [] []) = []" by (simp add: sample_world_def)
  have h2: "fault_at (sample_world [sample_post 1] [False, True]) 1" by code_simp
  have a: "\<exists>page. fst (BlogService_getAll sample_collaborators (sample_world [] []) (sample_query 1 10))
         = Inr page \<and> data page = []"
    using C10_getAll_never_not_found [of sample_collaborators "sample_world [] []" "sample_query 1 10"]
      h1 by blast
  have b: "fst (BlogService_getAll sample_collaborators (sample_world [sample_post 1] [False, True])
        (sample_query 1 10)) = Inr empty_page"
    using C10_getAll_never_not_found [of sample_collaborators
        "sample_world [sample_post 1] [False, True]" "sample_query 1 10"] h2 by blast
  show ?thesis using a b h1 h2 by blast
qed

end
